theory Spec2Isabelle
  imports Complex_Main "HOL-Library.Word"
begin

unbundle bit_operations_syntax

section \<open>Python values, exceptions and byte strings\<close>

text \<open>
  The DARC client is Python. Its integers are unbounded (\<open>int\<close>), its \<open>bytes\<close> values are
  lists of 8-bit words, and every \<open>raise\<close> is a value \<open>Inl e\<close> of a sum type. Only
  subclasses of \<open>Exception\<close> are modelled, which is what \<open>except Exception\<close> catches.
  Quotients of integers that Python computes in binary floating point (\<open>errors / n\<close>) are
  modelled by the exact quotient in \<open>real\<close>; the two agree on every comparison made below
  as long as the list lengths stay far below \<open>2 ^ 50\<close>.
\<close>

datatype exn =
    TypeError
  | ValueError
  | KeyError
  | IndexError
  | OverflowError
  | ZeroDivisionError
  | UnicodeEncodeError

type_synonym byte = "8 word"
type_synonym bytes = "byte list"

text \<open>\<open>xs[i]\<close> for a non-negative index: IndexError out of range.\<close>

definition py_index :: "'a list \<Rightarrow> nat \<Rightarrow> exn + 'a" where
  "py_index xs i = (if i < length xs then Inr (xs ! i) else Inl IndexError)"

text \<open>
  \<open>xs[idx]\<close> for any integer: \<open>-1\<close> is the last element, \<open>-len(xs)\<close> the first,
  and anything beyond either end raises IndexError.
\<close>

definition py_getitem :: "'a list \<Rightarrow> int \<Rightarrow> exn + 'a" where
  "py_getitem xs idx =
     (if 0 \<le> idx then py_index xs (nat idx)
      else if - idx \<le> int (length xs) then Inr (xs ! (length xs - nat (- idx)))
      else Inl IndexError)"

section \<open>Builtins: hexadecimal text and big-endian integers\<close>

text \<open>\<open>bytes.hex()\<close>: two lower-case hexadecimal digits per byte.\<close>

definition hex_digit :: "nat \<Rightarrow> char" where
  "hex_digit n = (if n < 10 then char_of (48 + n) else char_of (87 + n))"

definition bytes_hex :: "bytes \<Rightarrow> string" where
  "bytes_hex data = concat (map (\<lambda>b. [hex_digit (unat b div 16), hex_digit (unat b mod 16)]) data)"

text \<open>
  \<open>bytes.fromhex(s)\<close>: ASCII whitespace is skipped between bytes, each byte is two
  adjacent hexadecimal digits of either case, anything else raises ValueError.
\<close>

definition hex_value :: "char \<Rightarrow> nat option" where
  "hex_value c =
     (let n = (of_char c :: nat) in
      if 48 \<le> n \<and> n \<le> 57 then Some (n - 48)
      else if 97 \<le> n \<and> n \<le> 102 then Some (n - 87)
      else if 65 \<le> n \<and> n \<le> 70 then Some (n - 55)
      else None)"

definition is_ascii_space :: "char \<Rightarrow> bool" where
  "is_ascii_space c = ((of_char c :: nat) \<in> {32, 9, 10, 11, 12, 13})"

fun bytes_fromhex :: "string \<Rightarrow> exn + bytes" where
  "bytes_fromhex [] = Inr []"
| "bytes_fromhex [c] = (if is_ascii_space c then Inr [] else Inl ValueError)"
| "bytes_fromhex (c # d # rest) =
     (if is_ascii_space c then bytes_fromhex (d # rest)
      else
        (case (hex_value c, hex_value d) of
           (Some hi, Some lo) \<Rightarrow>
             (case bytes_fromhex rest of
                Inl e \<Rightarrow> Inl e
              | Inr data \<Rightarrow> Inr (of_nat (16 * hi + lo) # data))
         | _ \<Rightarrow> Inl ValueError))"

text \<open>
  \<open>n.to_bytes(length, 'big')\<close> (unsigned): OverflowError when \<open>n\<close> is negative or does
  not fit in \<open>length\<close> bytes.
\<close>

definition int_to_bytes :: "int \<Rightarrow> nat \<Rightarrow> exn + bytes" where
  "int_to_bytes n len =
     (if n < 0 \<or> 256 ^ len \<le> n then Inl OverflowError
      else Inr (map (\<lambda>k. word_of_int (drop_bit (8 * (len - 1 - k)) n)) [0..<len]))"

section \<open>Library interfaces\<close>

text \<open>
  The client calls libraries whose code is not part of the repository: \<open>hashlib\<close>
  (SHA-256), PyCryptodome (AES in GCM mode), \<open>json\<close>, the UTF-8 codec and the iteration
  order of a Python \<open>set\<close>. Each is a field of the record \<open>libs\<close>, a parameter of every
  definition that calls it.
  \<^item> \<open>aes_new key nonce\<close> stands for \<open>AES.new(key, AES.MODE_GCM, nonce=nonce)\<close>: it raises
    or gives the cipher for that key and nonce. \<open>aes_gcm_encrypt key nonce plaintext\<close> stands
    for \<open>encrypt_and_digest(plaintext)\<close> on that cipher and returns \<open>(ciphertext, tag)\<close>.
    \<open>aes_gcm_decrypt key nonce ciphertext tag\<close> stands for
    \<open>AES.new(...).decrypt_and_verify(ciphertext, tag)\<close>, the two calls taken together
    because \<open>decrypt_message\<close> evaluates nothing between them. Each may raise.
  \<^item> A parsed JSON document is a value of type \<open>json\<close>; numbers with a fraction are
    not modelled, and a \<open>JDict\<close> lists each key once, as a Python dict holds it. 
  \<^item> Text that is JSON or hexadecimal is a \<open>string\<close>. A plaintext message is a Python
    \<open>str\<close> of arbitrary content: the list of its code points (\<open>pystr\<close>), each below
    \<open>0x110000\<close> (\<open>is_str\<close>). \<open>str.encode('utf-8')\<close> raises UnicodeEncodeError when the
    string holds a surrogate code point (\<open>0xD800\<close> to \<open>0xDFFF\<close>); otherwise it returns
    the bytes \<open>utf8_encode\<close> of the codec.
\<close>

type_synonym pystr = "nat list"

definition is_str :: "pystr \<Rightarrow> bool" where
  "is_str s \<longleftrightarrow> (\<forall>c \<in> set s. c < 0x110000)"

definition is_surrogate :: "nat \<Rightarrow> bool" where
  "is_surrogate c \<longleftrightarrow> 0xD800 \<le> c \<and> c \<le> 0xDFFF"

definition has_surrogate :: "pystr \<Rightarrow> bool" where
  "has_surrogate s \<longleftrightarrow> (\<exists>c \<in> set s. is_surrogate c)"

datatype json =
    JNull
  | JBool bool
  | JInt int
  | JStr string
  | JList "json list"
  | JDict "(string \<times> json) list"

record libs =
  sha256 :: "bytes \<Rightarrow> bytes"
  aes_new :: "bytes \<Rightarrow> bytes \<Rightarrow> exn + unit"
  aes_gcm_encrypt :: "bytes \<Rightarrow> bytes \<Rightarrow> bytes \<Rightarrow> exn + bytes \<times> bytes"
  aes_gcm_decrypt :: "bytes \<Rightarrow> bytes \<Rightarrow> bytes \<Rightarrow> bytes \<Rightarrow> exn + bytes"
  json_dumps :: "json \<Rightarrow> string"
  json_loads :: "string \<Rightarrow> exn + json"
  utf8_encode :: "pystr \<Rightarrow> bytes"
  utf8_decode :: "bytes \<Rightarrow> exn + pystr"
  set_iter :: "int list \<Rightarrow> int list"

text \<open>\<open>message.encode('utf-8')\<close>\<close>

definition str_encode :: "libs \<Rightarrow> pystr \<Rightarrow> exn + bytes" where
  "str_encode L message =
     (if has_surrogate message then Inl UnicodeEncodeError else Inr (utf8_encode L message))"

section \<open>bb84\_qkd.py: the BB84 engine\<close>

subsection \<open>Packing bits into bytes\<close>

text \<open>
  The inner loop \<open>for j, bit in enumerate(byte_bits): byte |= bit << (7 - j)\<close>. The
  second argument is the running index \<open>j\<close>, the third the accumulator \<open>byte\<close>;
  the source's variable \<open>bit\<close> is written \<open>b\<close>.
\<close>

fun pack_byte :: "int list \<Rightarrow> nat \<Rightarrow> int \<Rightarrow> int" where
  "pack_byte [] j byte = byte"
| "pack_byte (b # byte_bits) j byte =
     pack_byte byte_bits (j + 1) (byte OR push_bit (7 - j) b)"

text \<open>
  The outer loop \<open>for i in range(0, len(bits), 8): if i + 8 <= len(bits): ...\<close>
  followed by \<open>key_bytes.append(byte)\<close>, which raises ValueError unless
  \<open>0 <= byte < 256\<close>. The recursion walks the list in steps of eight; a trailing
  group of fewer than eight bits is skipped.
\<close>

function bits_to_bytes :: "int list \<Rightarrow> exn + bytes" where
  "bits_to_bytes bits =
     (if length bits < 8 then Inr []
      else
        (let byte = pack_byte (take 8 bits) 0 0 in
         if 0 \<le> byte \<and> byte < 256 then
           (case bits_to_bytes (drop 8 bits) of
              Inl e \<Rightarrow> Inl e
            | Inr key_bytes \<Rightarrow> Inr (word_of_int byte # key_bytes))
         else Inl ValueError))"
  by pat_completeness auto
termination
  by (relation "measure length") auto

declare bits_to_bytes.simps [simp del]

text \<open>
  \<open>for byte in hash_result: for i in range(8): final_key.append((byte >> (7 - i)) & 1)\<close>
\<close>

definition byte_to_bits :: "byte \<Rightarrow> int list" where
  "byte_to_bits byte = map (\<lambda>i. drop_bit (7 - i) (uint byte) AND 1) [0..<8]"

definition bytes_to_bits :: "bytes \<Rightarrow> int list" where
  "bytes_to_bits hash_result = concat (map byte_to_bits hash_result)"

subsection \<open>Sifting, error rate, error correction\<close>

text \<open>
  \<open>BB84QKD.sift_keys\<close>: the loop over \<open>range(len(alice_bases))\<close>. The first argument is
  the list of indices still to visit. Reading \<open>bob_bases[i]\<close>, \<open>bob_bits[i]\<close> or
  \<open>alice_bits[i]\<close> past the end raises IndexError.
\<close>

fun sift_keys_loop ::
  "nat list \<Rightarrow> int list \<Rightarrow> int list \<Rightarrow> int list \<Rightarrow> int list \<Rightarrow>
   int list \<times> int list \<times> int list \<Rightarrow> exn + (int list \<times> int list \<times> int list)" where
  "sift_keys_loop [] alice_bits alice_bases bob_bits bob_bases acc = Inr acc"
| "sift_keys_loop (i # rest) alice_bits alice_bases bob_bits bob_bases
     (sifted_key, alice_sifted, bob_sifted) =
     (case py_index bob_bases i of
        Inl e \<Rightarrow> Inl e
      | Inr bob_basis \<Rightarrow>
          if alice_bases ! i = bob_basis then
            (case py_index bob_bits i of
               Inl e \<Rightarrow> Inl e
             | Inr bob_bit \<Rightarrow>
                 (case py_index alice_bits i of
                    Inl e \<Rightarrow> Inl e
                  | Inr alice_bit \<Rightarrow>
                      sift_keys_loop rest alice_bits alice_bases bob_bits bob_bases
                        (sifted_key @ [bob_bit], alice_sifted @ [alice_bit],
                         bob_sifted @ [bob_bit])))
          else
            sift_keys_loop rest alice_bits alice_bases bob_bits bob_bases
              (sifted_key, alice_sifted, bob_sifted))"

definition sift_keys ::
  "int list \<Rightarrow> int list \<Rightarrow> int list \<Rightarrow> int list \<Rightarrow>
   exn + (int list \<times> int list \<times> int list)" where
  "sift_keys alice_bits alice_bases bob_bits bob_bases =
     sift_keys_loop [0..<length alice_bases] alice_bits alice_bases bob_bits bob_bases
       ([], [], [])"

text \<open>
  \<open>BB84QKD.calculate_qber\<close>: the loop over \<open>zip(alice_sifted, bob_sifted)\<close> counting
  the positions that differ, then \<open>(errors / len(alice_sifted)) * 100\<close>.
\<close>

fun count_errors :: "(int \<times> int) list \<Rightarrow> nat \<Rightarrow> nat" where
  "count_errors [] errors = errors"
| "count_errors ((alice_bit, bob_bit) # rest) errors =
     count_errors rest (if alice_bit \<noteq> bob_bit then errors + 1 else errors)"

definition calculate_qber :: "int list \<Rightarrow> int list \<Rightarrow> real" where
  "calculate_qber alice_sifted bob_sifted =
     (if length alice_sifted = 0 then 100
      else (real (count_errors (zip alice_sifted bob_sifted) 0) / real (length alice_sifted))
           * 100)"

subsection \<open>Privacy amplification and the final key\<close>

definition privacy_amplification :: "libs \<Rightarrow> int list \<Rightarrow> exn + int list" where
  "privacy_amplification L sifted_key =
     (if length sifted_key = 0 then Inr []
      else
        (case bits_to_bytes sifted_key of
           Inl e \<Rightarrow> Inl e
         | Inr key_bytes \<Rightarrow>
             if length key_bytes > 0 then
               Inr (take 256 (bytes_to_bits (sha256 L key_bytes)))
             else Inr []))"

text \<open>\<open>while len(key_bytes) < 32: key_bytes.append(0)\<close>\<close>

function pad_key_bytes :: "bytes \<Rightarrow> bytes" where
  "pad_key_bytes key_bytes =
     (if length key_bytes < 32 then pad_key_bytes (key_bytes @ [0]) else key_bytes)"
  by pat_completeness auto
termination
  by (relation "measure (\<lambda>key_bytes. 32 - length key_bytes)") auto

declare pad_key_bytes.simps [simp del]

definition generate_final_key :: "libs \<Rightarrow> int list \<Rightarrow> exn + bytes" where
  "generate_final_key L sifted_key =
     (case privacy_amplification L sifted_key of
        Inl e \<Rightarrow> Inl e
      | Inr final_key_bits \<Rightarrow>
          (case bits_to_bytes final_key_bits of
             Inl e \<Rightarrow> Inl e
           | Inr key_bytes \<Rightarrow> Inr (take 32 (pad_key_bytes key_bytes))))"

subsection \<open>Error correction by majority vote\<close>

text \<open>
  \<open>max(set(block), key=block.count)\<close>: \<open>max\<close> walks the set in its iteration order
  (\<open>set_iter\<close>, a library matter) and keeps the first element whose count is largest;
  on an empty block it raises ValueError.
\<close>

fun py_max_key :: "('a \<Rightarrow> nat) \<Rightarrow> 'a \<Rightarrow> 'a list \<Rightarrow> 'a" where
  "py_max_key key best [] = best"
| "py_max_key key best (x # xs) = py_max_key key (if key best < key x then x else best) xs"

definition majority :: "libs \<Rightarrow> int list \<Rightarrow> exn + int" where
  "majority L block =
     (case set_iter L block of
        [] \<Rightarrow> Inl ValueError
      | x # xs \<Rightarrow> Inr (py_max_key (count_list block) x xs))"

text \<open>
  \<open>BB84QKD.error_correction\<close>: the loop over \<open>range(0, len(alice_sifted), 3)\<close>. The two
  lists still to be cut into blocks are the second and third argument, the corrected
  lists built so far the fourth.
\<close>

function error_correction_loop ::
  "libs \<Rightarrow> int list \<Rightarrow> int list \<Rightarrow> int list \<times> int list \<Rightarrow> exn + (int list \<times> int list)" where
  "error_correction_loop L alice_rest bob_rest (corrected_alice, corrected_bob) =
     (if alice_rest = [] then Inr (corrected_alice, corrected_bob)
      else
        (let alice_block = take 3 alice_rest; bob_block = take 3 bob_rest in
         if 3 \<le> length alice_block then
           (case majority L alice_block of
              Inl e \<Rightarrow> Inl e
            | Inr alice_majority \<Rightarrow>
                (case majority L bob_block of
                   Inl e \<Rightarrow> Inl e
                 | Inr bob_majority \<Rightarrow>
                     error_correction_loop L (drop 3 alice_rest) (drop 3 bob_rest)
                       (corrected_alice @ replicate (length alice_block) alice_majority,
                        corrected_bob @ replicate (length bob_block) bob_majority)))
         else
           error_correction_loop L (drop 3 alice_rest) (drop 3 bob_rest)
             (corrected_alice @ alice_block, corrected_bob @ bob_block)))"
  by pat_completeness auto
termination
  by (relation "measure (\<lambda>(L, alice_rest, bob_rest, acc). length alice_rest)") auto

declare error_correction_loop.simps [simp del]

definition error_correction ::
  "libs \<Rightarrow> int list \<Rightarrow> int list \<Rightarrow> exn + (int list \<times> int list)" where
  "error_correction L alice_sifted bob_sifted =
     (if length alice_sifted = 0 then Inr (alice_sifted, bob_sifted)
      else error_correction_loop L alice_sifted bob_sifted ([], []))"

section \<open>aes\_quantum.py: the keyed channel\<close>

text \<open>
  \<open>QuantumNonce.generate_nonce\<close>. The measured qubit returned by
  \<open>BB84QKD._quantum_random_bit()\<close> is the argument \<open>quantum_bit\<close>.
\<close>

definition darc_constant :: bytes where
  "darc_constant = map of_char ''DARC_QKD''"

definition generate_nonce :: "libs \<Rightarrow> int \<Rightarrow> int \<Rightarrow> exn + bytes" where
  "generate_nonce L quantum_bit counter =
     (case int_to_bytes quantum_bit 1 of
        Inl e \<Rightarrow> Inl e
      | Inr quantum_bytes \<Rightarrow>
          (case int_to_bytes counter 4 of
             Inl e \<Rightarrow> Inl e
           | Inr counter_bytes \<Rightarrow>
               Inr (take 12 (sha256 L (darc_constant @ counter_bytes @ quantum_bytes)))))"

text \<open>
  \<open>encrypt_message\<close> and \<open>decrypt_message\<close> wrap their bodies in
  \<open>try: ... except Exception as e: print(...); return None\<close>. The model returns the
  outcome (\<open>Inr\<close> a returned value, \<open>Inl\<close> an exception that escapes) together with the
  trace of what was done: each call into AES-GCM and each line printed.
\<close>

datatype event =
    Aes_gcm_call
  | Print_encryption_error exn
  | Print_counter_mismatch
  | Print_decryption_error exn

definition envelope_json :: "bytes \<Rightarrow> bytes \<Rightarrow> bytes \<Rightarrow> int \<Rightarrow> json" where
  "envelope_json nonce tag ciphertext counter =
     JDict [(''nonce'', JStr (bytes_hex nonce)),
            (''tag'', JStr (bytes_hex tag)),
            (''ciphertext'', JStr (bytes_hex ciphertext)),
            (''counter'', JInt counter)]"

text \<open>
  The body of \<open>encrypt_message\<close>, in the source's order: the nonce, \<open>AES.new\<close>, the
  encoding of the message (the argument of \<open>encrypt_and_digest\<close>), the encryption, the
  JSON text.
\<close>

definition encrypt_body ::
  "libs \<Rightarrow> bytes \<Rightarrow> pystr \<Rightarrow> int \<Rightarrow> int \<Rightarrow> (exn + string) \<times> event list" where
  "encrypt_body L key message counter quantum_bit =
     (case generate_nonce L quantum_bit counter of
        Inl e \<Rightarrow> (Inl e, [])
      | Inr nonce \<Rightarrow>
          (case aes_new L key nonce of
             Inl e \<Rightarrow> (Inl e, [Aes_gcm_call])
           | Inr cipher \<Rightarrow>
               (case str_encode L message of
                  Inl e \<Rightarrow> (Inl e, [Aes_gcm_call])
                | Inr plaintext \<Rightarrow>
                    (case aes_gcm_encrypt L key nonce plaintext of
                       Inl e \<Rightarrow> (Inl e, [Aes_gcm_call])
                     | Inr (ciphertext, tag) \<Rightarrow>
                         (Inr (json_dumps L (envelope_json nonce tag ciphertext counter)),
                          [Aes_gcm_call])))))"

definition encrypt_message ::
  "libs \<Rightarrow> bytes \<Rightarrow> pystr \<Rightarrow> int \<Rightarrow> int \<Rightarrow> (exn + string option) \<times> event list" where
  "encrypt_message L key message counter quantum_bit =
     (case encrypt_body L key message counter quantum_bit of
        (Inr text, events) \<Rightarrow> (Inr (Some text), events)
      | (Inl e, events) \<Rightarrow> (Inr None, events @ [Print_encryption_error e]))"

text \<open>
  \<open>encrypted_data[k]\<close>: KeyError on a dict without the key, TypeError on anything that
  is not a dict. \<open>bytes.fromhex(encrypted_data[k])\<close> raises TypeError unless the value is
  a string. \<open>encrypted_data['counter'] != counter\<close> compares with an \<open>int\<close>: in Python
  \<open>True == 1\<close> and \<open>False == 0\<close>, and no string, list, dict or \<open>None\<close> equals an \<open>int\<close>.
\<close>

definition json_getitem :: "json \<Rightarrow> string \<Rightarrow> exn + json" where
  "json_getitem obj k =
     (case obj of
        JDict items \<Rightarrow> (case map_of items k of None \<Rightarrow> Inl KeyError | Some v \<Rightarrow> Inr v)
      | _ \<Rightarrow> Inl TypeError)"

definition hex_field :: "json \<Rightarrow> string \<Rightarrow> exn + bytes" where
  "hex_field obj k =
     (case json_getitem obj k of
        Inl e \<Rightarrow> Inl e
      | Inr (JStr s) \<Rightarrow> bytes_fromhex s
      | Inr _ \<Rightarrow> Inl TypeError)"

definition py_ne_int :: "json \<Rightarrow> int \<Rightarrow> bool" where
  "py_ne_int v n =
     (case v of JInt m \<Rightarrow> m \<noteq> n | JBool b \<Rightarrow> of_bool b \<noteq> n | _ \<Rightarrow> True)"

text \<open>
  The first four statements of \<open>decrypt_message\<close>: \<open>json.loads\<close> (TypeError on
  \<open>None\<close>) and the three \<open>bytes.fromhex\<close> calls, in the source's order.
\<close>

definition parse_encrypted_data ::
  "libs \<Rightarrow> string option \<Rightarrow> exn + (json \<times> bytes \<times> bytes \<times> bytes)" where
  "parse_encrypted_data L encrypted_data_json =
     (case encrypted_data_json of
        None \<Rightarrow> Inl TypeError
      | Some text \<Rightarrow>
          (case json_loads L text of
             Inl e \<Rightarrow> Inl e
           | Inr encrypted_data \<Rightarrow>
               (case hex_field encrypted_data ''nonce'' of
                  Inl e \<Rightarrow> Inl e
                | Inr nonce \<Rightarrow>
                    (case hex_field encrypted_data ''tag'' of
                       Inl e \<Rightarrow> Inl e
                     | Inr tag \<Rightarrow>
                         (case hex_field encrypted_data ''ciphertext'' of
                            Inl e \<Rightarrow> Inl e
                          | Inr ciphertext \<Rightarrow>
                              Inr (encrypted_data, nonce, tag, ciphertext))))))"

definition decrypt_body ::
  "libs \<Rightarrow> bytes \<Rightarrow> string option \<Rightarrow> int \<Rightarrow> (exn + pystr option) \<times> event list" where
  "decrypt_body L key encrypted_data_json counter =
     (case parse_encrypted_data L encrypted_data_json of
        Inl e \<Rightarrow> (Inl e, [])
      | Inr (encrypted_data, nonce, tag, ciphertext) \<Rightarrow>
          (case json_getitem encrypted_data ''counter'' of
             Inl e \<Rightarrow> (Inl e, [])
           | Inr envelope_counter \<Rightarrow>
               if py_ne_int envelope_counter counter then (Inr None, [Print_counter_mismatch])
               else
                 (case aes_gcm_decrypt L key nonce ciphertext tag of
                    Inl e \<Rightarrow> (Inl e, [Aes_gcm_call])
                  | Inr plaintext \<Rightarrow>
                      (case utf8_decode L plaintext of
                         Inl e \<Rightarrow> (Inl e, [Aes_gcm_call])
                       | Inr message \<Rightarrow> (Inr (Some message), [Aes_gcm_call])))))"

definition decrypt_message ::
  "libs \<Rightarrow> bytes \<Rightarrow> string option \<Rightarrow> int \<Rightarrow> (exn + pystr option) \<times> event list" where
  "decrypt_message L key encrypted_data_json counter =
     (case decrypt_body L key encrypted_data_json counter of
        (Inr result, events) \<Rightarrow> (Inr result, events)
      | (Inl e, events) \<Rightarrow> (Inr None, events @ [Print_decryption_error e]))"

text \<open>
  \<open>decrypt_message(key, encrypt_message(key, message, counter), expected_counter)\<close>
\<close>

definition decrypt_of_encrypt ::
  "libs \<Rightarrow> bytes \<Rightarrow> pystr \<Rightarrow> int \<Rightarrow> int \<Rightarrow> int \<Rightarrow> (exn + pystr option) \<times> event list" where
  "decrypt_of_encrypt L key message counter quantum_bit expected_counter =
     (case fst (encrypt_message L key message counter quantum_bit) of
        Inl e \<Rightarrow> (Inl e, [])
      | Inr encrypted \<Rightarrow> decrypt_message L key encrypted expected_counter)"

text \<open>
  What the channel needs of the libraries. \<open>json.loads\<close> parses what \<open>json.dumps\<close>
  printed for an envelope (\<open>json_contract\<close>). SHA-256 returns 32 bytes; AES-GCM accepts
  a key of 16, 24 or 32 bytes with a non-empty nonce, and decrypting what it encrypted
  under the same key and nonce verifies and gives the plaintext back; decoding UTF-8
  undoes the encoding of a string without surrogates.
\<close>

definition json_contract :: "libs \<Rightarrow> bool" where
  "json_contract L \<longleftrightarrow>
     (\<forall>nonce tag ciphertext counter.
        json_loads L (json_dumps L (envelope_json nonce tag ciphertext counter))
          = Inr (envelope_json nonce tag ciphertext counter))"

definition lib_contract :: "libs \<Rightarrow> bool" where
  "lib_contract L \<longleftrightarrow>
     (\<forall>data. length (sha256 L data) = 32)
     \<and> (\<forall>key nonce plaintext.
          length key \<in> {16, 24, 32} \<and> nonce \<noteq> [] \<longrightarrow>
          aes_new L key nonce = Inr ()
          \<and> (\<exists>ciphertext tag.
                aes_gcm_encrypt L key nonce plaintext = Inr (ciphertext, tag)
                \<and> aes_gcm_decrypt L key nonce ciphertext tag = Inr plaintext))
     \<and> json_contract L
     \<and> (\<forall>message. is_str message \<and> \<not> has_surrogate message \<longrightarrow>
          utf8_decode L (utf8_encode L message) = Inr message)"

section \<open>quantum\_session.py: the session with restart\<close>

datatype SessionState =
    IDLE
  | SESSION_REQUESTED
  | SESSION_ACCEPTED
  | QKD_EXCHANGING
  | KEY_ESTABLISHED
  | SESSION_ACTIVE
  | SESSION_TERMINATED

text \<open>
  A protocol message, inbound (the \<open>data\<close> dict of a handler) or outbound: its type,
  sender and addressee, and the payload fields the handlers below read. A field that
  the dict lacks is \<open>None\<close>; reading it raises KeyError.
\<close>

record message =
  msg_type :: string
  msg_from :: string
  msg_to :: string
  measurements :: "int list option"
  verification_hash :: "string option"

definition plain_message :: "string \<Rightarrow> string \<Rightarrow> string \<Rightarrow> message" where
  "plain_message t sender addressee =
     \<lparr> msg_type = t, msg_from = sender, msg_to = addressee,
       measurements = None, verification_hash = None \<rparr>"

text \<open>\<open>QuantumQubit\<close>: its \<open>state\<close> symbol is a function of bit and basis and is left out.\<close>

record QuantumQubit =
  qubit_bit :: int
  qubit_basis :: int

datatype task = Start_qkd_as_sender | Start_qkd_as_receiver

text \<open>
  The object's fields, and two more for its effects: \<open>sent\<close> lists the messages handed
  to the signalling client (oldest first; the transport is taken to accept each one),
  \<open>tasks\<close> the coroutines scheduled with \<open>asyncio.create_task\<close>.
\<close>

record QuantumSession =
  user_id :: string
  peer_id :: string
  state :: SessionState
  alice_bits :: "int list"
  alice_bases :: "int list"
  bob_bases :: "int list"
  qubits :: "QuantumQubit list"
  shared_key :: "bytes option"
  qber :: real
  message_counter :: int
  sent :: "message list"
  tasks :: "task list"

definition new_session :: "string \<Rightarrow> string \<Rightarrow> QuantumSession" where
  "new_session user peer =
     \<lparr> user_id = user, peer_id = peer, state = IDLE,
       alice_bits = [], alice_bases = [], bob_bases = [], qubits = [],
       shared_key = None, qber = 0, message_counter = 0, sent = [], tasks = [] \<rparr>"

definition send :: "QuantumSession \<Rightarrow> message \<Rightarrow> QuantumSession" where
  "send s m = s\<lparr>sent := sent s @ [m]\<rparr>"

definition start_session :: "QuantumSession \<Rightarrow> QuantumSession \<times> bool" where
  "start_session s =
     (if state s \<noteq> IDLE then (s, False)
      else (send (s\<lparr>state := SESSION_REQUESTED\<rparr>)
              (plain_message ''session_request'' (user_id s) (peer_id s)), True))"

definition handle_session_request :: "QuantumSession \<Rightarrow> message \<Rightarrow> QuantumSession \<times> bool" where
  "handle_session_request s request_data =
     (if state s \<noteq> IDLE then (s, False)
      else
        (let s1 = send (s\<lparr>state := SESSION_ACCEPTED\<rparr>)
                    (plain_message ''session_accept'' (user_id s) (peer_id s))
         in (s1\<lparr>tasks := tasks s1 @ [Start_qkd_as_receiver]\<rparr>, True)))"

definition handle_session_accept :: "QuantumSession \<Rightarrow> message \<Rightarrow> QuantumSession \<times> bool" where
  "handle_session_accept s accept_data =
     (if state s \<noteq> SESSION_REQUESTED then (s, False)
      else (s\<lparr>state := QKD_EXCHANGING, tasks := tasks s @ [Start_qkd_as_sender]\<rparr>, True))"

definition restart_session :: "QuantumSession \<Rightarrow> QuantumSession" where
  "restart_session s =
     send (s\<lparr>alice_bits := [], alice_bases := [], bob_bases := [], qubits := [],
              shared_key := None, qber := 0, message_counter := 0,
              state := SESSION_REQUESTED\<rparr>)
       (plain_message ''session_restart'' (user_id s) (peer_id s))"

definition terminate_session :: "QuantumSession \<Rightarrow> QuantumSession" where
  "terminate_session s =
     send (s\<lparr>state := SESSION_TERMINATED,
              alice_bits := [], alice_bases := [], bob_bases := [], qubits := [],
              shared_key := None, qber := 0, message_counter := 0\<rparr>)
       (plain_message ''session_terminated'' (user_id s) (peer_id s))"

text \<open>\<open>hashlib.sha256(self.shared_key[:16]).hexdigest()\<close>; TypeError when the key is \<open>None\<close>.\<close>

definition key_hash_hex :: "libs \<Rightarrow> bytes option \<Rightarrow> exn + string" where
  "key_hash_hex L k =
     (case k of None \<Rightarrow> Inl TypeError | Some data \<Rightarrow> Inr (bytes_hex (sha256 L (take 16 data))))"

text \<open>
  \<open>verify_key_consistency\<close>. \<open>not self.shared_key\<close> is true of \<open>None\<close> and of the empty
  byte string.
\<close>

definition verify_key_consistency :: "libs \<Rightarrow> QuantumSession \<Rightarrow> QuantumSession" where
  "verify_key_consistency L s =
     (case shared_key s of
        None \<Rightarrow> restart_session s
      | Some k \<Rightarrow>
          if k = [] then restart_session s
          else
            send s ((plain_message ''key_verification'' (user_id s) (peer_id s))
                      \<lparr>verification_hash := Some (bytes_hex (sha256 L (take 16 k)))\<rparr>))"

text \<open>
  The \<open>try\<close> block of \<open>handle_qkd_measurements\<close>: the session as the block leaves it, and
  whether it ended normally or by an exception.
\<close>

definition qkd_measurements_body ::
  "libs \<Rightarrow> QuantumSession \<Rightarrow> message \<Rightarrow> QuantumSession \<times> (exn + unit)" where
  "qkd_measurements_body L s data =
     (case measurements data of
        None \<Rightarrow> (s, Inl KeyError)
      | Some ms \<Rightarrow>
          (case sift_keys (alice_bits s) (alice_bases s) ms (bob_bases s) of
             Inl e \<Rightarrow> (s, Inl e)
           | Inr (sifted, alice_sifted, bob_sifted) \<Rightarrow>
               (let s1 = s\<lparr>qber := calculate_qber alice_sifted bob_sifted\<rparr> in
                if qber s1 > 11 then (restart_session s1, Inr ())
                else
                  (case error_correction L alice_sifted bob_sifted of
                     Inl e \<Rightarrow> (s1, Inl e)
                   | Inr (corrected_alice, corrected_bob) \<Rightarrow>
                       (case generate_final_key L corrected_alice of
                          Inl e \<Rightarrow> (s1, Inl e)
                        | Inr k \<Rightarrow>
                            (verify_key_consistency L (s1\<lparr>shared_key := Some k\<rparr>),
                             Inr ()))))))"

definition handle_qkd_measurements :: "libs \<Rightarrow> QuantumSession \<Rightarrow> message \<Rightarrow> QuantumSession" where
  "handle_qkd_measurements L s data =
     (if state s \<noteq> QKD_EXCHANGING then s
      else
        (case qkd_measurements_body L s data of
           (s1, Inr u) \<Rightarrow> s1
         | (s1, Inl e) \<Rightarrow> restart_session s1))"

definition key_verification_body ::
  "libs \<Rightarrow> QuantumSession \<Rightarrow> message \<Rightarrow> QuantumSession \<times> (exn + unit)" where
  "key_verification_body L s data =
     (case verification_hash data of
        None \<Rightarrow> (s, Inl KeyError)
      | Some their_hash \<Rightarrow>
          (case key_hash_hex L (shared_key s) of
             Inl e \<Rightarrow> (s, Inl e)
           | Inr my_hash \<Rightarrow>
               if their_hash = my_hash then
                 ((send (s\<lparr>state := KEY_ESTABLISHED\<rparr>)
                     (plain_message ''key_confirmed'' (user_id s) (peer_id s)))
                    \<lparr>state := SESSION_ACTIVE\<rparr>, Inr ())
               else (restart_session s, Inr ())))"

definition handle_key_verification :: "libs \<Rightarrow> QuantumSession \<Rightarrow> message \<Rightarrow> QuantumSession" where
  "handle_key_verification L s data =
     (case key_verification_body L s data of
        (s1, Inr u) \<Rightarrow> s1
      | (s1, Inl e) \<Rightarrow> restart_session s1)"

definition handle_key_confirmed :: "QuantumSession \<Rightarrow> message \<Rightarrow> QuantumSession" where
  "handle_key_confirmed s data = s\<lparr>state := SESSION_ACTIVE\<rparr>"

definition session_encrypt_message ::
  "libs \<Rightarrow> QuantumSession \<Rightarrow> pystr \<Rightarrow> int \<Rightarrow> (exn + string option) \<times> event list" where
  "session_encrypt_message L s message quantum_bit =
     (case shared_key s of
        Some k \<Rightarrow>
          if k = [] \<or> state s \<noteq> SESSION_ACTIVE then (Inr None, [])
          else encrypt_message L k message (message_counter s) quantum_bit
      | None \<Rightarrow> (Inr None, []))"

definition session_decrypt_message ::
  "libs \<Rightarrow> QuantumSession \<Rightarrow> string option \<Rightarrow> (exn + pystr option) \<times> event list" where
  "session_decrypt_message L s encrypted_data =
     (case shared_key s of
        Some k \<Rightarrow>
          if k = [] \<or> state s \<noteq> SESSION_ACTIVE then (Inr None, [])
          else decrypt_message L k encrypted_data (message_counter s)
      | None \<Rightarrow> (Inr None, []))"

definition increment_message_counter :: "QuantumSession \<Rightarrow> QuantumSession" where
  "increment_message_counter s = s\<lparr>message_counter := message_counter s + 1\<rparr>"

section \<open>qkd\_session.py: the session of the session manager\<close>

text \<open>
  \<open>QKDState\<close>. Its last member is \<open>SESSION_TERMINATED\<close> in the source; the name is taken
  by \<open>SessionState\<close> above, so here it is \<open>QKD_SESSION_TERMINATED\<close>.
\<close>

datatype QKDState =
    CONNECTED
  | SESSION_REQUEST
  | QKD_INITIALIZATION
  | BASIS_RECONCILIATION
  | QBER_CHECK
  | ERROR_CORRECTION
  | KEY_CONFIRMATION
  | SECURE_CHAT
  | QKD_SESSION_TERMINATED

text \<open>
  The fields of a \<open>QKDSession\<close>; \<open>state\<close>, \<open>shared_key\<close> and \<open>alice_bits\<close> carry the prefix
  \<open>qkd_\<close> because \<open>QuantumSession\<close> has fields of the same names. \<open>final_key\<close> is
  \<open>None\<close> until it is assigned. \<open>perform_qber_check\<close> assigns \<open>self.final_key =
  self.sifted_key\<close>, after which both names denote one list object and the in-place
  \<open>extend\<close> of \<open>error_correction\<close> changes both; \<open>final_is_sifted\<close> records that the
  two fields share the object.
\<close>

record QKDSession =
  session_id :: string
  target_name :: string
  is_initiator :: bool
  qkd_state :: QKDState
  qkd_shared_key :: "bytes option"
  key_length :: nat
  qkd_alice_bits :: "int list"
  alice_basis :: "int list"
  alice_states :: "string list"
  bob_basis :: "int list"
  bob_measurements :: "int list"
  sifted_key :: "int list"
  final_key :: "int list option"
  final_is_sifted :: bool

definition new_qkd_session :: "string \<Rightarrow> string \<Rightarrow> bool \<Rightarrow> QKDSession" where
  "new_qkd_session sid target initiator =
     \<lparr> session_id = sid, target_name = target, is_initiator = initiator,
       qkd_state = CONNECTED, qkd_shared_key = None, key_length = 256,
       qkd_alice_bits = [], alice_basis = [], alice_states = [], bob_basis = [],
       bob_measurements = [], sifted_key = [], final_key = None, final_is_sifted = False \<rparr>"

text \<open>
  The dicts the methods return, by their \<open>"type"\<close>; each carries the session id. The
  abort reason is kept as the error rate it is formatted from.
\<close>

datatype reply =
    Qber_sample string "int list" "int list"
  | Qkd_abort string real
  | Key_confirmation string string
  | Key_mismatch string
  | Session_ready string
  | Session_terminated string

text \<open>\<open>key_confirmation\<close>: the first 8 bytes of the hash of the shared key, in hex.\<close>

definition key_confirmation :: "libs \<Rightarrow> QKDSession \<Rightarrow> QKDSession \<times> (exn + reply option)" where
  "key_confirmation L s =
     (case qkd_shared_key s of
        None \<Rightarrow> (s, Inl TypeError)
      | Some k \<Rightarrow>
          (s, Inr (Some (Key_confirmation (session_id s) (bytes_hex (take 8 (sha256 L k)))))))"

text \<open>
  \<open>QKDSession.error_correction\<close>: pad the final key in place to 32 bits, pack it into
  bytes, hash, move to key confirmation. (The name \<open>error_correction\<close> is the BB84
  engine's above.)
\<close>

definition qkd_error_correction ::
  "libs \<Rightarrow> QKDSession \<Rightarrow> QKDSession \<times> (exn + reply option)" where
  "qkd_error_correction L s =
     (case final_key s of
        None \<Rightarrow> (s, Inl TypeError)
      | Some key_bits \<Rightarrow>
          (let padded =
                 (if length key_bits < 32 then key_bits @ replicate (32 - length key_bits) 0
                  else key_bits);
               s1 = s\<lparr>final_key := Some padded,
                       sifted_key := (if final_is_sifted s then padded else sifted_key s)\<rparr>
           in
             (case bits_to_bytes padded of
                Inl e \<Rightarrow> (s1, Inl e)
              | Inr key_bytes \<Rightarrow>
                  key_confirmation L
                    (s1\<lparr>qkd_shared_key := Some (sha256 L key_bytes),
                        qkd_state := KEY_CONFIRMATION\<rparr>))))"

text \<open>\<open>[self.sifted_key[i] for i in sample_indices]\<close>\<close>

fun sample_bits_of :: "int list \<Rightarrow> nat list \<Rightarrow> exn + int list" where
  "sample_bits_of key [] = Inr []"
| "sample_bits_of key (i # rest) =
     (case py_index key i of
        Inl e \<Rightarrow> Inl e
      | Inr b \<Rightarrow> (case sample_bits_of key rest of Inl e \<Rightarrow> Inl e | Inr bs \<Rightarrow> Inr (b # bs)))"

text \<open>
  \<open>perform_qber_check\<close>. \<open>np.random.choice(n, size, replace=False)\<close> is the argument
  \<open>choice\<close>: the positions drawn, as a function of \<open>n\<close> and the sample size.
\<close>

text \<open>
  What a draw without replacement guarantees: as many positions as asked for, no
  position twice, each below \<open>n\<close>.
\<close>

definition choice_without_replacement :: "(nat \<Rightarrow> nat \<Rightarrow> nat list) \<Rightarrow> bool" where
  "choice_without_replacement choice \<longleftrightarrow>
     (\<forall>n k. k \<le> n \<longrightarrow>
        length (choice n k) = k \<and> distinct (choice n k)
        \<and> (\<forall>i \<in> set (choice n k). i < n))"

definition perform_qber_check ::
  "libs \<Rightarrow> (nat \<Rightarrow> nat \<Rightarrow> nat list) \<Rightarrow> QKDSession \<Rightarrow> QKDSession \<times> (exn + reply option)" where
  "perform_qber_check L choice s =
     (if length (sifted_key s) < 20 then
        qkd_error_correction L
          (s\<lparr>final_key := Some (sifted_key s), final_is_sifted := True,
             qkd_state := ERROR_CORRECTION\<rparr>)
      else
        (let sample_size = max 5 (length (sifted_key s) div 4);
             sample_indices = choice (length (sifted_key s)) sample_size
         in
           if is_initiator s then
             (case sample_bits_of (sifted_key s) sample_indices of
                Inl e \<Rightarrow> (s, Inl e)
              | Inr sample_bits \<Rightarrow>
                  (s, Inr (Some (Qber_sample (session_id s) (map int sample_indices)
                                   sample_bits))))
           else (s, Inr None)))"

text \<open>
  The counting loop of \<open>receive_qber_sample\<close>:
  \<open>for i, idx in enumerate(sample_indices): if self.sifted_key[idx] != sample_bits[i]: errors += 1\<close>.
  The second argument is the running position \<open>i\<close>.
\<close>

fun count_sample_errors ::
  "int list \<Rightarrow> nat \<Rightarrow> int list \<Rightarrow> int list \<Rightarrow> nat \<Rightarrow> exn + nat" where
  "count_sample_errors key i [] sample_bits errors = Inr errors"
| "count_sample_errors key i (idx # rest) sample_bits errors =
     (case py_getitem key idx of
        Inl e \<Rightarrow> Inl e
      | Inr own \<Rightarrow>
          (case py_index sample_bits i of
             Inl e \<Rightarrow> Inl e
           | Inr theirs \<Rightarrow>
               count_sample_errors key (i + 1) rest sample_bits
                 (if own \<noteq> theirs then errors + 1 else errors)))"

text \<open>\<open>[bit for i, bit in enumerate(self.sifted_key) if i not in sample_indices]\<close>\<close>

definition remove_sampled :: "int list \<Rightarrow> int list \<Rightarrow> int list" where
  "remove_sampled key sample_indices =
     map snd (filter (\<lambda>(i, b). int i \<notin> set sample_indices) (enumerate 0 key))"

definition receive_qber_sample ::
  "libs \<Rightarrow> QKDSession \<Rightarrow> int list \<Rightarrow> int list \<Rightarrow> QKDSession \<times> (exn + reply option)" where
  "receive_qber_sample L s sample_indices sample_bits =
     (case count_sample_errors (sifted_key s) 0 sample_indices sample_bits 0 of
        Inl e \<Rightarrow> (s, Inl e)
      | Inr errors \<Rightarrow>
          if length sample_indices = 0 then (s, Inl ZeroDivisionError)
          else
            (let rate = real errors / real (length sample_indices) in
             if rate > 11 / 100 then
               (s\<lparr>qkd_state := QKD_SESSION_TERMINATED\<rparr>,
                Inr (Some (Qkd_abort (session_id s) rate)))
             else
               qkd_error_correction L
                 (s\<lparr>final_key := Some (remove_sampled (sifted_key s) sample_indices),
                    final_is_sifted := False,
                    qkd_state := ERROR_CORRECTION\<rparr>)))"

definition receive_key_confirmation ::
  "libs \<Rightarrow> QKDSession \<Rightarrow> string \<Rightarrow> QKDSession \<times> (exn + reply option)" where
  "receive_key_confirmation L s confirmation_hex =
     (case qkd_shared_key s of
        None \<Rightarrow> (s, Inl TypeError)
      | Some k \<Rightarrow>
          (let my_confirmation = take 8 (sha256 L k) in
           case bytes_fromhex confirmation_hex of
             Inl e \<Rightarrow> (s, Inl e)
           | Inr their_confirmation \<Rightarrow>
               if my_confirmation \<noteq> their_confirmation then
                 (s\<lparr>qkd_state := QKD_SESSION_TERMINATED\<rparr>,
                  Inr (Some (Key_mismatch (session_id s))))
               else
                 (s\<lparr>qkd_state := SECURE_CHAT\<rparr>,
                  Inr (Some (Session_ready (session_id s))))))"

text \<open>
  \<open>QKDSession.terminate_session\<close> (the name \<open>terminate_session\<close> is
  \<open>QuantumSession\<close>'s above).
\<close>

definition qkd_terminate_session :: "QKDSession \<Rightarrow> QKDSession \<times> reply" where
  "qkd_terminate_session s =
     (s\<lparr>qkd_state := QKD_SESSION_TERMINATED, qkd_shared_key := None, final_key := None,
        sifted_key := [], final_is_sifted := False\<rparr>,
      Session_terminated (session_id s))"

section \<open>Stand-ins for the libraries\<close>

text \<open>
  The theorems below hold for every choice of the library functions. To instantiate
  them at concrete inputs fixed functions are needed. The \<open>demo_\<close> functions are such
  stand-ins: small functions that meet \<open>lib_contract\<close> (an exclusive-or cipher with a
  checksum tag, a length-prefixed text format for envelopes, a codec of three bytes
  per code point). Nothing is claimed of them beyond that, and they are no part of the client.
\<close>

definition demo_sha256 :: "bytes \<Rightarrow> bytes" where
  "demo_sha256 data = take 32 (map (\<lambda>b. b + 1) data @ replicate 32 7)"

definition demo_tag :: "bytes \<Rightarrow> bytes \<Rightarrow> bytes \<Rightarrow> bytes" where
  "demo_tag key nonce ciphertext = replicate 16 (sum_list (key @ nonce @ ciphertext))"

definition demo_aes_new :: "bytes \<Rightarrow> bytes \<Rightarrow> exn + unit" where
  "demo_aes_new key nonce =
     (if length key \<in> {16, 24, 32} \<and> nonce \<noteq> [] then Inr () else Inl ValueError)"

definition demo_aes_gcm_encrypt :: "bytes \<Rightarrow> bytes \<Rightarrow> bytes \<Rightarrow> exn + bytes \<times> bytes" where
  "demo_aes_gcm_encrypt key nonce plaintext =
     (if length key \<in> {16, 24, 32} \<and> nonce \<noteq> [] then
        (let ciphertext = map (\<lambda>b. b XOR hd key) plaintext
         in Inr (ciphertext, demo_tag key nonce ciphertext))
      else Inl ValueError)"

definition demo_aes_gcm_decrypt :: "bytes \<Rightarrow> bytes \<Rightarrow> bytes \<Rightarrow> bytes \<Rightarrow> exn + bytes" where
  "demo_aes_gcm_decrypt key nonce ciphertext tag =
     (if length key \<in> {16, 24, 32} \<and> nonce \<noteq> [] \<and> tag = demo_tag key nonce ciphertext then
        Inr (map (\<lambda>b. b XOR hd key) ciphertext)
      else Inl ValueError)"

definition demo_field :: "string \<Rightarrow> string" where
  "demo_field s = replicate (length s) CHR ''#'' @ CHR '':'' # s"

definition demo_int :: "int \<Rightarrow> string" where
  "demo_int n = (if n < 0 then CHR ''-'' else CHR ''+'') # replicate (nat \<bar>n\<bar>) CHR ''1''"

fun demo_json_dumps :: "json \<Rightarrow> string" where
  "demo_json_dumps (JDict [(k1, JStr a), (k2, JStr b), (k3, JStr c), (k4, JInt n)]) =
     demo_field a @ demo_field b @ demo_field c @ demo_int n"
| "demo_json_dumps _ = []"

definition demo_take_field :: "string \<Rightarrow> string \<times> string" where
  "demo_take_field s =
     (let n = length (takeWhile (\<lambda>c. c = CHR ''#'') s); r = drop (n + 1) s
      in (take n r, drop n r))"

definition demo_json_loads :: "string \<Rightarrow> exn + json" where
  "demo_json_loads s =
     (case demo_take_field s of (a, r1) \<Rightarrow>
      case demo_take_field r1 of (b, r2) \<Rightarrow>
      case demo_take_field r2 of (c, r3) \<Rightarrow>
      (case r3 of
         [] \<Rightarrow> Inl ValueError
       | sg # ds \<Rightarrow>
           Inr (JDict [(''nonce'', JStr a), (''tag'', JStr b), (''ciphertext'', JStr c),
                       (''counter'',
                        JInt ((if sg = CHR ''-'' then - 1 else 1) * int (length ds)))])))"

definition demo_utf8_encode :: "pystr \<Rightarrow> bytes" where
  "demo_utf8_encode s =
     concat (map (\<lambda>c. [of_nat (c div 65536), of_nat (c div 256 mod 256), of_nat (c mod 256)]) s)"

fun demo_utf8_decode :: "bytes \<Rightarrow> pystr" where
  "demo_utf8_decode (hi # mid # lo # rest) =
     (65536 * unat hi + 256 * unat mid + unat lo) # demo_utf8_decode rest"
| "demo_utf8_decode short = []"

definition demo_libs :: libs where
  "demo_libs =
     \<lparr> sha256 = demo_sha256,
       aes_new = demo_aes_new,
       aes_gcm_encrypt = demo_aes_gcm_encrypt,
       aes_gcm_decrypt = demo_aes_gcm_decrypt,
       json_dumps = demo_json_dumps,
       json_loads = demo_json_loads,
       utf8_encode = demo_utf8_encode,
       utf8_decode = (\<lambda>data. Inr (demo_utf8_decode data)),
       set_iter = remdups \<rparr>"

text \<open>
  The message \<open>hello\<close> by its code points, and a message that is one surrogate code
  point (\<open>'\ud800'\<close> in Python).
\<close>

definition demo_message :: pystr where
  "demo_message = [104, 101, 108, 108, 111]"

definition demo_surrogate :: pystr where
  "demo_surrogate = [0xD800]"

text \<open>An envelope in the stand-in text format, with counter 7.\<close>

definition demo_envelope :: string where
  "demo_envelope = demo_json_dumps (envelope_json [1, 2] [3] [4, 5] 7)"

text \<open>A 32-byte key, and an envelope whose nonce is not hexadecimal.\<close>

definition demo_key :: bytes where
  "demo_key = replicate 32 7"

definition demo_bad_hex :: string where
  "demo_bad_hex = demo_field ''zz'' @ demo_field [] @ demo_field [] @ demo_int 5"

text \<open>A responder's \<open>QKDSession\<close> that has reached key confirmation.\<close>

definition demo_qkd_session :: QKDSession where
  "demo_qkd_session =
     (new_qkd_session ''s1'' ''bob'' False)
       \<lparr> qkd_state := KEY_CONFIRMATION,
         qkd_shared_key := Some demo_key,
         qkd_alice_bits := [1, 0, 1, 1],
         alice_basis := [0, 1, 1, 0],
         alice_states := [''|1>'', ''|+'', ''|-'', ''|1>''],
         bob_basis := [0, 1, 0, 0],
         bob_measurements := [1, 0, 0, 1],
         sifted_key := [1, 0, 1],
         final_key := Some [1, 0, 1] \<rparr>"

text \<open>
  A draw that takes the first positions; an initiator with 21 sifted bits, a responder
  with 3; a \<open>QuantumSession\<close> in the middle of the exchange, and a measurements message.
\<close>

definition demo_choice :: "nat \<Rightarrow> nat \<Rightarrow> nat list" where
  "demo_choice n k = [0..<k]"

definition demo_initiator :: QKDSession where
  "demo_initiator =
     (new_qkd_session ''s2'' ''bob'' True)
       \<lparr> qkd_state := QBER_CHECK, sifted_key := replicate 21 1 \<rparr>"

definition demo_responder :: QKDSession where
  "demo_responder =
     (new_qkd_session ''s3'' ''alice'' False)
       \<lparr> qkd_state := QBER_CHECK, sifted_key := [1, 0, 1] \<rparr>"

definition demo_exchanging :: QuantumSession where
  "demo_exchanging =
     (new_session ''alice'' ''bob'')
       \<lparr> state := QKD_EXCHANGING, alice_bits := [0, 1], alice_bases := [0, 0],
         bob_bases := [0, 0],
         qubits := [\<lparr>qubit_bit = 0, qubit_basis = 0\<rparr>, \<lparr>qubit_bit = 1, qubit_basis = 0\<rparr>] \<rparr>"

definition measurements_message :: "int list \<Rightarrow> message" where
  "measurements_message ms =
     (plain_message ''qkd_measurements'' ''bob'' ''alice'')\<lparr>measurements := Some ms\<rparr>"

section \<open>Properties of the builtins and of the stand-ins\<close>

lemma hex_digit_value: "n < 16 \<Longrightarrow> hex_value (hex_digit n) = Some n"
  by (simp add: hex_digit_def hex_value_def Let_def)

lemma hex_digit_not_space: "n < 16 \<Longrightarrow> \<not> is_ascii_space (hex_digit n)"
  by (simp add: hex_digit_def is_ascii_space_def)

lemma bytes_fromhex_hex: "bytes_fromhex (bytes_hex data) = Inr data"
proof (induction data)
  case Nil
  show ?case by (simp add: bytes_hex_def)
next
  case (Cons b data)
  have hi: "unat b div 16 < 16"
    using unsigned_less [of b, where ?'a = nat] by (simp add: less_mult_imp_div_less)
  have lo: "unat b mod 16 < 16" by simp
  have "bytes_hex (b # data)
      = hex_digit (unat b div 16) # hex_digit (unat b mod 16) # bytes_hex data"
    by (simp add: bytes_hex_def)
  then show ?case
    using Cons.IH hex_digit_value [OF hi] hex_digit_value [OF lo] hex_digit_not_space [OF hi]
    by simp
qed

lemma demo_take_field: "demo_take_field (demo_field a @ rest) = (a, rest)"
proof -
  have "takeWhile (\<lambda>c. c = CHR ''#'') (replicate (length a) CHR ''#'' @ CHR '':'' # a @ rest)
      = replicate (length a) CHR ''#''"
    by (subst takeWhile_append2) auto
  then show ?thesis
    by (simp add: demo_take_field_def demo_field_def Let_def)
qed

lemma demo_json_loads_fields:
  "demo_json_loads (demo_field a @ demo_field b @ demo_field c @ demo_int n)
     = Inr (JDict [(''nonce'', JStr a), (''tag'', JStr b), (''ciphertext'', JStr c),
                   (''counter'', JInt n)])"
  by (simp add: demo_json_loads_def demo_take_field) (simp add: demo_int_def)

lemma demo_json_round_trip:
  "demo_json_loads (demo_json_dumps (envelope_json nonce tag ciphertext counter))
     = Inr (envelope_json nonce tag ciphertext counter)"
  by (simp add: envelope_json_def demo_json_loads_fields)

lemma demo_sha256_length: "length (demo_sha256 data) = 32"
  by (simp add: demo_sha256_def)

lemma three_bytes: "65536 * (c div 65536) + 256 * (c div 256 mod 256) + c mod 256 = (c :: nat)"
proof -
  have a: "c mod 65536 = 256 * (c div 256 mod 256) + c mod 256"
    using mod_mult2_eq [of c 256 256] by simp
  have b: "65536 * (c div 65536) + c mod 65536 = c"
    by simp
  show ?thesis using a b by linarith
qed

lemma byte_of_small: "n < 256 \<Longrightarrow> unat (of_nat n :: byte) = n"
  by (simp add: unsigned_of_nat take_bit_eq_mod)

lemma demo_utf8: "is_str s \<Longrightarrow> demo_utf8_decode (demo_utf8_encode s) = s"
proof (induction s)
  case Nil
  show ?case by (simp add: demo_utf8_encode_def)
next
  case (Cons c s)
  have c: "c < 1114112" using Cons.prems by (simp add: is_str_def)
  have s: "is_str s" using Cons.prems by (simp add: is_str_def)
  have "c div 65536 < 256" using c by (simp add: div_less_iff_less_mult)
  then have hi: "unat (of_nat (c div 65536) :: byte) = c div 65536"
    by (rule byte_of_small)
  have mid: "unat (of_nat (c div 256 mod 256) :: byte) = c div 256 mod 256"
    by (rule byte_of_small) simp
  have lo: "unat (of_nat (c mod 256) :: byte) = c mod 256"
    by (rule byte_of_small) simp
  have e: "demo_utf8_encode (c # s)
      = of_nat (c div 65536) # of_nat (c div 256 mod 256) # of_nat (c mod 256)
        # demo_utf8_encode s"
    by (simp add: demo_utf8_encode_def)
  show ?case
    unfolding e using Cons.IH [OF s] by (simp only: demo_utf8_decode.simps hi mid lo three_bytes)
qed

lemma demo_libs_contract: "lib_contract demo_libs"
  unfolding lib_contract_def
proof (intro conjI allI impI)
  fix data show "length (sha256 demo_libs data) = 32"
    by (simp add: demo_libs_def demo_sha256_length)
next
  fix key nonce plaintext :: bytes
  assume a: "length key \<in> {16, 24, 32} \<and> nonce \<noteq> []"
  then show "aes_new demo_libs key nonce = Inr ()"
    by (simp add: demo_libs_def demo_aes_new_def)
  from a show "\<exists>ciphertext tag.
      aes_gcm_encrypt demo_libs key nonce plaintext = Inr (ciphertext, tag)
      \<and> aes_gcm_decrypt demo_libs key nonce ciphertext tag = Inr plaintext"
    by (simp add: demo_libs_def demo_aes_gcm_encrypt_def demo_aes_gcm_decrypt_def Let_def
        comp_def xor.assoc)
next
  show "json_contract demo_libs"
    by (simp add: json_contract_def demo_libs_def demo_json_round_trip)
next
  fix message
  assume "is_str message \<and> \<not> has_surrogate message"
  then show "utf8_decode demo_libs (utf8_encode demo_libs message) = Inr message"
    by (simp add: demo_libs_def demo_utf8)
qed

section \<open>Properties of the BB84 engine\<close>

lemma count_errors_acc: "count_errors ps n = n + count_errors ps 0"
proof (induction ps arbitrary: n)
  case Nil
  show ?case by simp
next
  case (Cons p ps)
  obtain a b where p: "p = (a, b)" by (cases p)
  show ?case
    using Cons.IH [of "n + 1"] Cons.IH [of 1] Cons.IH [of n] by (simp add: p)
qed

lemma count_errors_filter:
  "count_errors ps 0 = length (filter (\<lambda>(a, b). a \<noteq> b) ps)"
proof (induction ps)
  case Nil
  show ?case by simp
next
  case (Cons p ps)
  obtain a b where p: "p = (a, b)" by (cases p)
  show ?case
    using Cons.IH count_errors_acc [of ps 1] by (simp add: p)
qed

lemma mismatch_card:
  "length xs = length ys \<Longrightarrow>
   length (filter (\<lambda>(a, b). a \<noteq> b) (zip xs ys)) = card {i. i < length xs \<and> xs ! i \<noteq> ys ! i}"
proof -
  assume len: "length xs = length ys"
  have "length (filter (\<lambda>(a, b). a \<noteq> b) (zip xs ys))
      = card {i. i < length (zip xs ys) \<and> (\<lambda>(a, b). a \<noteq> b) (zip xs ys ! i)}"
    by (rule length_filter_conv_card)
  also have "{i. i < length (zip xs ys) \<and> (\<lambda>(a, b). a \<noteq> b) (zip xs ys ! i)}
      = {i. i < length xs \<and> xs ! i \<noteq> ys ! i}"
    using len by auto
  finally show ?thesis .
qed

lemma count_errors_same: "count_errors (zip xs xs) 0 = 0"
  by (auto simp: count_errors_filter filter_empty_conv in_set_zip)

text \<open>
  Claim C8. For two bit sequences of equal length, \<open>calculate_qber\<close> is the fraction of
  positions at which they differ, times 100; a non-empty sequence compared with itself
  has error rate 0; and the error rate of two empty sequences is defined as 100. (The
  empty sequence is the one case the claim singles out, so "any sequence" in its second
  part is read as any sequence that has a bit to compare.)
\<close>

theorem calculate_qber_spec:
  "(length a = length b \<and> a \<noteq> [] \<longrightarrow>
      calculate_qber a b
        = real (card {i. i < length a \<and> a ! i \<noteq> b ! i}) / real (length a) * 100)
   \<and> (x \<noteq> [] \<longrightarrow> calculate_qber x x = 0)
   \<and> calculate_qber [] [] = 100"
  by (simp add: calculate_qber_def count_errors_filter mismatch_card count_errors_same [unfolded count_errors_filter])

theorem calculate_qber_spec_witness:
  "length [0, 1, 1, 0 :: int] = length [0, 1, 0, 1 :: int] \<and> [0, 1, 1, 0 :: int] \<noteq> []
   \<and> calculate_qber [0, 1, 1, 0] [0, 1, 0, 1]
       = real (card {i. i < length [0, 1, 1, 0 :: int]
                        \<and> [0, 1, 1, 0 :: int] ! i \<noteq> [0, 1, 0, 1] ! i})
         / real (length [0, 1, 1, 0 :: int]) * 100
   \<and> calculate_qber [0, 1, 1, 0] [0, 1, 0, 1] = 50
   \<and> [1, 0 :: int] \<noteq> [] \<and> calculate_qber [1, 0] [1, 0] = 0
   \<and> calculate_qber [] [] = 100"
proof -
  have v: "calculate_qber [0, 1, 1, 0] [0, 1, 0, 1] = 50"
    by (simp add: calculate_qber_def)
  show ?thesis
    using calculate_qber_spec [of "[0, 1, 1, 0]" "[0, 1, 0, 1]" "[1, 0]"] v
    by simp
qed

lemma pad_key_bytes_eq: "pad_key_bytes kb = kb @ replicate (32 - length kb) 0"
proof (induction kb rule: pad_key_bytes.induct)
  case (1 kb)
  show ?case
  proof (cases "length kb < 32")
    case True
    then have "32 - length kb = Suc (32 - length (kb @ [0]))" by simp
    with True 1 show ?thesis
      by (subst pad_key_bytes.simps) (simp add: replicate_append_same)
  next
    case False
    then show ?thesis by (subst pad_key_bytes.simps) simp
  qed
qed

lemma bits_to_bytes_short: "length bits < 8 \<Longrightarrow> bits_to_bytes bits = Inr []"
  by (subst bits_to_bytes.simps) simp

lemma pack_byte_range:
  "set bs \<subseteq> {0, 1} \<Longrightarrow> 0 \<le> acc \<Longrightarrow> acc < 256 \<Longrightarrow>
   0 \<le> pack_byte bs j acc \<and> pack_byte bs j acc < 256"
proof (induction bs arbitrary: j acc)
  case Nil
  then show ?case by simp
next
  case (Cons b bs)
  have b: "b = 0 \<or> b = 1" using Cons.prems by auto
  have p: "0 \<le> push_bit (7 - j) b \<and> push_bit (7 - j) b < (2::int) ^ 8"
  proof -
    have "(2::int) ^ (7 - j) < 2 ^ 8" by (rule power_strict_increasing) auto
    then show ?thesis using b by (auto simp: push_bit_eq_mult)
  qed
  have "0 \<le> acc OR push_bit (7 - j) b" using Cons.prems p by simp
  moreover have "acc OR push_bit (7 - j) b < 2 ^ 8"
    using Cons.prems p by (intro OR_upper) auto
  ultimately show ?case using Cons.IH [of "acc OR push_bit (7 - j) b" "j + 1"] Cons.prems by simp
qed

lemma bits_to_bytes_ok:
  "set bits \<subseteq> {0, 1} \<Longrightarrow> \<exists>bs. bits_to_bytes bits = Inr bs \<and> length bs = length bits div 8"
proof (induction bits rule: bits_to_bytes.induct)
  case (1 bits)
  show ?case
  proof (cases "length bits < 8")
    case True
    then show ?thesis by (simp add: bits_to_bytes_short)
  next
    case False
    have r: "0 \<le> pack_byte (take 8 bits) 0 0 \<and> pack_byte (take 8 bits) 0 0 < 256"
      using "1.prems" by (intro pack_byte_range) (auto dest: in_set_takeD)
    have "set (drop 8 bits) \<subseteq> {0, 1}" using "1.prems" by (auto dest: in_set_dropD)
    with "1.IH" [OF False refl] r obtain bs where
      bs: "bits_to_bytes (drop 8 bits) = Inr bs" "length bs = length (drop 8 bits) div 8"
      by auto
    have "length bits div 8 = Suc ((length bits - 8) div 8)"
      using False by presburger
    with bs r False show ?thesis
      by (subst bits_to_bytes.simps) (simp add: Let_def)
  qed
qed

lemma bytes_to_bits_set: "set (bytes_to_bits hs) \<subseteq> {0, 1}"
proof -
  have "\<And>(x::int). x AND 1 = 0 \<or> x AND 1 = 1"
    by (simp add: and_one_eq) presburger
  then show ?thesis
    by (auto simp: bytes_to_bits_def byte_to_bits_def)
qed

lemma privacy_amplification_short:
  "length bits < 8 \<Longrightarrow> privacy_amplification L bits = Inr []"
  by (simp add: privacy_amplification_def bits_to_bytes_short)

lemma generate_final_key_short:
  "length bits < 8 \<Longrightarrow> generate_final_key L bits = Inr (replicate 32 0)"
  by (simp add: generate_final_key_def privacy_amplification_short bits_to_bytes_short
      pad_key_bytes_eq)

lemma privacy_amplification_bits:
  assumes "set bits \<subseteq> {0, 1}"
  shows "\<exists>out. privacy_amplification L bits = Inr out \<and> set out \<subseteq> {0, 1}"
proof -
  obtain bs where bs: "bits_to_bytes bits = Inr bs"
    using bits_to_bytes_ok [OF assms] by blast
  have "set (take 256 (bytes_to_bits (sha256 L bs))) \<subseteq> {0, 1}"
    using bytes_to_bits_set [of "sha256 L bs"] by (auto dest: in_set_takeD)
  then show ?thesis
    by (simp add: privacy_amplification_def bs)
qed

lemma generate_final_key_length:
  assumes "set bits \<subseteq> {0, 1}"
  shows "\<exists>key. generate_final_key L bits = Inr key \<and> length key = 32"
proof -
  obtain out where out: "privacy_amplification L bits = Inr out" "set out \<subseteq> {0, 1}"
    using privacy_amplification_bits [OF assms] by blast
  obtain bs where bs: "bits_to_bytes out = Inr bs"
    using bits_to_bytes_ok [OF out(2)] by blast
  show ?thesis
    by (simp add: generate_final_key_def out bs pad_key_bytes_eq)
qed

text \<open>
  Claim C10. On fewer than 8 bits (the empty list included) \<open>privacy_amplification\<close>
  returns the empty list, not a 256-bit key, and \<open>generate_final_key\<close> returns the key
  of 32 zero bytes; on at least 8 bits \<open>generate_final_key\<close> returns exactly 32 bytes.
  This holds whatever the hash function returns.
\<close>

theorem short_input_gives_zero_key:
  "(length bits < 8 \<longrightarrow>
      privacy_amplification L bits = Inr []
      \<and> generate_final_key L bits = Inr (replicate 32 0))
   \<and> (8 \<le> length bits \<and> set bits \<subseteq> {0, 1} \<longrightarrow>
        (\<exists>key. generate_final_key L bits = Inr key \<and> length key = 32))"
  using privacy_amplification_short generate_final_key_short generate_final_key_length
  by blast

theorem short_input_gives_zero_key_witness:
  "privacy_amplification demo_libs [1, 0, 1] = Inr []
   \<and> generate_final_key demo_libs [1, 0, 1] = Inr (replicate 32 0)
   \<and> (\<exists>key. generate_final_key demo_libs [1, 0, 0, 0, 0, 0, 0, 1] = Inr key
          \<and> length key = 32)"
  using short_input_gives_zero_key [of "[1, 0, 1]" demo_libs]
    short_input_gives_zero_key [of "[1, 0, 0, 0, 0, 0, 0, 1]" demo_libs]
  by simp

section \<open>Properties of the keyed channel\<close>

lemma hex_field_envelope:
  "hex_field (envelope_json nonce tag ciphertext counter) ''nonce'' = Inr nonce"
  "hex_field (envelope_json nonce tag ciphertext counter) ''tag'' = Inr tag"
  "hex_field (envelope_json nonce tag ciphertext counter) ''ciphertext'' = Inr ciphertext"
  "json_getitem (envelope_json nonce tag ciphertext counter) ''counter'' = Inr (JInt counter)"
  by (simp_all add: hex_field_def json_getitem_def envelope_json_def bytes_fromhex_hex)

lemma parse_envelope:
  "json_loads L text = Inr (envelope_json nonce tag ciphertext counter) \<Longrightarrow>
   parse_encrypted_data L (Some text)
     = Inr (envelope_json nonce tag ciphertext counter, nonce, tag, ciphertext)"
  by (simp add: parse_encrypted_data_def hex_field_envelope)

lemma generate_nonce_ok:
  assumes "lib_contract L" "0 \<le> counter" "counter < 2 ^ 32" "quantum_bit \<in> {0, 1}"
  shows "\<exists>nonce. generate_nonce L quantum_bit counter = Inr nonce \<and> length nonce = 12"
proof -
  have len: "\<And>data. length (sha256 L data) = 32"
    using assms(1) by (simp add: lib_contract_def)
  have "int_to_bytes quantum_bit 1 = Inr [word_of_int quantum_bit]"
    using assms(4) by (auto simp: int_to_bytes_def)
  moreover have "\<exists>counter_bytes. int_to_bytes counter 4 = Inr counter_bytes"
    using assms(2,3) by (simp add: int_to_bytes_def)
  ultimately show ?thesis
    by (auto simp: generate_nonce_def len)
qed

lemma encrypt_message_ok:
  assumes "lib_contract L" "length key \<in> {16, 24, 32}" "0 \<le> counter" "counter < 2 ^ 32"
    "quantum_bit \<in> {0, 1}" "\<not> has_surrogate message"
  shows "\<exists>nonce ciphertext tag.
           encrypt_message L key message counter quantum_bit
             = (Inr (Some (json_dumps L (envelope_json nonce tag ciphertext counter))),
                [Aes_gcm_call])
           \<and> aes_gcm_decrypt L key nonce ciphertext tag = Inr (utf8_encode L message)"
proof -
  obtain nonce where nonce: "generate_nonce L quantum_bit counter = Inr nonce"
    "length nonce = 12"
    using generate_nonce_ok [OF assms(1,3,4,5)] by blast
  then have "nonce \<noteq> []" by auto
  with assms(1,2) obtain ciphertext tag where
    aes: "aes_new L key nonce = Inr ()"
      "aes_gcm_encrypt L key nonce (utf8_encode L message) = Inr (ciphertext, tag)"
      "aes_gcm_decrypt L key nonce ciphertext tag = Inr (utf8_encode L message)"
    unfolding lib_contract_def by blast
  show ?thesis
    using aes assms(6)
    by (auto simp: encrypt_message_def encrypt_body_def nonce(1) str_encode_def)
qed

lemma encrypt_message_envelope:
  assumes "fst (encrypt_message L key message counter quantum_bit) = Inr (Some text)"
  shows "\<exists>nonce ciphertext tag. text = json_dumps L (envelope_json nonce tag ciphertext counter)"
  using assms
  by (auto simp: encrypt_message_def encrypt_body_def split: sum.splits prod.splits)

lemma json_contract_loads:
  "json_contract L \<Longrightarrow>
   json_loads L (json_dumps L (envelope_json nonce tag ciphertext counter))
     = Inr (envelope_json nonce tag ciphertext counter)"
  by (simp add: json_contract_def)

lemma surrogate_message:
  assumes "has_surrogate message"
  shows "fst (encrypt_message L key message counter quantum_bit) = Inr None"
    and "decrypt_of_encrypt L key message counter quantum_bit expected
           = (Inr None, [Print_decryption_error TypeError])"
proof -
  show n: "fst (encrypt_message L key message counter quantum_bit) = Inr None"
    using assms
    by (simp add: encrypt_message_def encrypt_body_def str_encode_def
        split: sum.splits prod.splits)
  show "decrypt_of_encrypt L key message counter quantum_bit expected
           = (Inr None, [Print_decryption_error TypeError])"
    by (simp add: decrypt_of_encrypt_def n decrypt_message_def decrypt_body_def
        parse_encrypted_data_def)
qed

lemma counter_out_of_range:
  assumes "counter < 0 \<or> 2 ^ 32 \<le> counter"
  shows "decrypt_of_encrypt L key message counter quantum_bit expected
           = (Inr None, [Print_decryption_error TypeError])"
proof -
  have "int_to_bytes counter 4 = Inl OverflowError"
    using assms by (auto simp: int_to_bytes_def)
  then have "fst (encrypt_message L key message counter quantum_bit) = Inr None"
    by (simp add: encrypt_message_def encrypt_body_def generate_nonce_def split: sum.splits)
  then show ?thesis
    by (simp add: decrypt_of_encrypt_def decrypt_message_def decrypt_body_def
        parse_encrypted_data_def)
qed

text \<open>
  Claim C1 (amended). For every 32-byte key, every plaintext string that holds no
  surrogate code point (so that it encodes to UTF-8) and every counter \<open>c\<close> with
  \<open>0 \<le> c < 2 ^ 32\<close>, decrypting what \<open>encrypt_message\<close> produced, with the same key and
  the same counter, returns the plaintext. The libraries are assumed to meet
  \<open>lib_contract\<close>, and the measured qubit to be 0 or 1.
\<close>

theorem decrypt_encrypt_round_trip:
  assumes "lib_contract L" "length key = 32" "0 \<le> counter" "counter < 2 ^ 32"
    "quantum_bit \<in> {0, 1}" "is_str message" "\<not> has_surrogate message"
  shows "decrypt_of_encrypt L key message counter quantum_bit counter
           = (Inr (Some message), [Aes_gcm_call])"
proof -
  have key: "length key \<in> {16, 24, 32}" using assms(2) by simp
  obtain nonce ciphertext tag where
    enc: "encrypt_message L key message counter quantum_bit
            = (Inr (Some (json_dumps L (envelope_json nonce tag ciphertext counter))),
               [Aes_gcm_call])"
    and dec: "aes_gcm_decrypt L key nonce ciphertext tag = Inr (utf8_encode L message)"
    using encrypt_message_ok [OF assms(1) key assms(3,4,5,7)] by blast
  have loads: "json_loads L (json_dumps L (envelope_json nonce tag ciphertext counter))
                 = Inr (envelope_json nonce tag ciphertext counter)"
    using assms(1) by (simp add: lib_contract_def json_contract_loads)
  have utf8: "utf8_decode L (utf8_encode L message) = Inr message"
    using assms(1,6,7) by (simp add: lib_contract_def)
  show ?thesis
    by (simp add: decrypt_of_encrypt_def enc decrypt_message_def decrypt_body_def
        parse_envelope [OF loads] hex_field_envelope py_ne_int_def dec utf8)
qed

lemma demo_message_str: "is_str demo_message" "\<not> has_surrogate demo_message"
  by (simp_all add: demo_message_def is_str_def has_surrogate_def is_surrogate_def)

lemma demo_surrogate_str: "is_str demo_surrogate" "has_surrogate demo_surrogate"
  by (simp_all add: demo_surrogate_def is_str_def has_surrogate_def is_surrogate_def)

theorem decrypt_encrypt_round_trip_witness:
  "lib_contract demo_libs \<and> length (replicate 32 (7 :: byte)) = 32
   \<and> is_str demo_message \<and> \<not> has_surrogate demo_message
   \<and> decrypt_of_encrypt demo_libs (replicate 32 7) demo_message 5 1 5
       = (Inr (Some demo_message), [Aes_gcm_call])"
  using decrypt_encrypt_round_trip [of demo_libs "replicate 32 7" 5 1 demo_message]
    demo_libs_contract demo_message_str
  by simp

text \<open>
  The claim as first stated fails in two ways: at the counter \<open>2 ^ 32\<close>, and at the
  plaintext \<open>'\ud800'\<close> with counter 5. In both \<open>encrypt_message\<close> returns \<open>None\<close>, and
  so does the decryption of \<open>None\<close>.
\<close>

theorem round_trip_fails_outside_domain:
  "lib_contract demo_libs \<and> length (replicate 32 (7 :: byte)) = 32
   \<and> is_str demo_message \<and> is_str demo_surrogate
   \<and> decrypt_of_encrypt demo_libs (replicate 32 7) demo_message (2 ^ 32) 1 (2 ^ 32)
       = (Inr None, [Print_decryption_error TypeError])
   \<and> fst (decrypt_of_encrypt demo_libs (replicate 32 7) demo_message (2 ^ 32) 1 (2 ^ 32))
       \<noteq> Inr (Some demo_message)
   \<and> decrypt_of_encrypt demo_libs (replicate 32 7) demo_surrogate 5 1 5
       = (Inr None, [Print_decryption_error TypeError])
   \<and> fst (decrypt_of_encrypt demo_libs (replicate 32 7) demo_surrogate 5 1 5)
       \<noteq> Inr (Some demo_surrogate)"
  using counter_out_of_range [of "2 ^ 32" demo_libs "replicate 32 7" demo_message 1 "2 ^ 32"]
    surrogate_message(2) [OF demo_surrogate_str(2), of demo_libs "replicate 32 7" 5 1 5]
    demo_libs_contract demo_message_str(1) demo_surrogate_str(1)
  by simp

lemma aead_only_after_counter_match:
  assumes "Aes_gcm_call \<in> set (snd (decrypt_message L key data expected))"
  shows "\<exists>encrypted_data nonce tag ciphertext envelope_counter.
           parse_encrypted_data L data = Inr (encrypted_data, nonce, tag, ciphertext)
           \<and> json_getitem encrypted_data ''counter'' = Inr envelope_counter
           \<and> \<not> py_ne_int envelope_counter expected"
  using assms
  by (auto simp: decrypt_message_def decrypt_body_def split: sum.splits prod.splits if_splits)

text \<open>
  Claim C2. Whenever the envelope parses (JSON with hexadecimal nonce, tag and
  ciphertext) and its counter field differs from the expected counter,
  \<open>decrypt_message\<close> returns \<open>None\<close> after printing the counter-mismatch line and
  without any call into AES-GCM; a call into AES-GCM happens only after the counter
  field was found equal to the expected counter. In particular an envelope that
  \<open>encrypt_message\<close> produced for counter \<open>c\<close> is rejected in this way when it is
  decrypted with expected counter \<open>c + 1\<close>.
\<close>

theorem replay_rejected_before_aead:
  "(parse_encrypted_data L data = Inr (encrypted_data, nonce, tag, ciphertext)
      \<and> json_getitem encrypted_data ''counter'' = Inr envelope_counter
      \<and> py_ne_int envelope_counter expected \<longrightarrow>
      decrypt_message L key data expected = (Inr None, [Print_counter_mismatch]))
   \<and> (Aes_gcm_call \<in> set (snd (decrypt_message L key data expected)) \<longrightarrow>
        (\<exists>d n t c v. parse_encrypted_data L data = Inr (d, n, t, c)
           \<and> json_getitem d ''counter'' = Inr v \<and> \<not> py_ne_int v expected))
   \<and> (json_contract L \<and> fst (encrypt_message L key message counter quantum_bit) = Inr (Some text)
        \<longrightarrow> decrypt_message L key (Some text) (counter + 1)
              = (Inr None, [Print_counter_mismatch]))"
proof (intro conjI impI)
  assume "parse_encrypted_data L data = Inr (encrypted_data, nonce, tag, ciphertext)
      \<and> json_getitem encrypted_data ''counter'' = Inr envelope_counter
      \<and> py_ne_int envelope_counter expected"
  then show "decrypt_message L key data expected = (Inr None, [Print_counter_mismatch])"
    by (simp add: decrypt_message_def decrypt_body_def)
next
  assume "Aes_gcm_call \<in> set (snd (decrypt_message L key data expected))"
  then show "\<exists>d n t c v. parse_encrypted_data L data = Inr (d, n, t, c)
           \<and> json_getitem d ''counter'' = Inr v \<and> \<not> py_ne_int v expected"
    by (rule aead_only_after_counter_match)
next
  assume a: "json_contract L
    \<and> fst (encrypt_message L key message counter quantum_bit) = Inr (Some text)"
  then obtain n c t where shape: "text = json_dumps L (envelope_json n t c counter)"
    using encrypt_message_envelope by blast
  have loads: "json_loads L text = Inr (envelope_json n t c counter)"
    using a by (simp add: json_contract_loads shape)
  show "decrypt_message L key (Some text) (counter + 1) = (Inr None, [Print_counter_mismatch])"
    by (simp add: decrypt_message_def decrypt_body_def parse_envelope [OF loads]
        hex_field_envelope py_ne_int_def)
qed

theorem replay_rejected_before_aead_witness:
  "parse_encrypted_data demo_libs (Some demo_envelope)
     = Inr (envelope_json [1, 2] [3] [4, 5] 7, [1, 2], [3], [4, 5])
   \<and> json_getitem (envelope_json [1, 2] [3] [4, 5] 7) ''counter'' = Inr (JInt 7)
   \<and> py_ne_int (JInt 7) 8
   \<and> decrypt_message demo_libs (replicate 32 7) (Some demo_envelope) 8
       = (Inr None, [Print_counter_mismatch])
   \<and> Aes_gcm_call \<notin> set (snd (decrypt_message demo_libs (replicate 32 7) (Some demo_envelope) 8))
   \<and> json_contract demo_libs
   \<and> (\<exists>text. fst (encrypt_message demo_libs (replicate 32 7) demo_message 5 1) = Inr (Some text)
        \<and> decrypt_message demo_libs (replicate 32 7) (Some text) (5 + 1)
            = (Inr None, [Print_counter_mismatch]))"
proof -
  have j: "json_contract demo_libs"
    using demo_libs_contract by (simp add: lib_contract_def)
  have loads: "json_loads demo_libs demo_envelope = Inr (envelope_json [1, 2] [3] [4, 5] 7)"
    by (simp add: demo_envelope_def demo_libs_def demo_json_round_trip)
  note p = parse_envelope [OF loads]
  have g: "json_getitem (envelope_json [1, 2] [3] [4, 5] 7) ''counter'' = Inr (JInt 7)"
    by (rule hex_field_envelope)
  have ne: "py_ne_int (JInt 7) 8" by (simp add: py_ne_int_def)
  obtain n c t where enc:
    "encrypt_message demo_libs (replicate 32 7) demo_message 5 1
       = (Inr (Some (json_dumps demo_libs (envelope_json n t c 5))), [Aes_gcm_call])"
    using encrypt_message_ok [of demo_libs "replicate 32 7" 5 1 demo_message] demo_libs_contract
      demo_message_str(2)
    by auto
  have r1: "decrypt_message demo_libs (replicate 32 7) (Some demo_envelope) 8
       = (Inr None, [Print_counter_mismatch])"
    using replay_rejected_before_aead [of demo_libs "Some demo_envelope"
        "envelope_json [1, 2] [3] [4, 5] 7" "[1, 2]" "[3]" "[4, 5]" "JInt 7" 8 "replicate 32 7"]
      p g ne by blast
  have r2: "decrypt_message demo_libs (replicate 32 7)
              (Some (json_dumps demo_libs (envelope_json n t c 5))) (5 + 1)
            = (Inr None, [Print_counter_mismatch])"
    using replay_rejected_before_aead [of demo_libs _ _ _ _ _ _ _ "replicate 32 7"
        demo_message 5 1 "json_dumps demo_libs (envelope_json n t c 5)"]
      j enc by simp
  show ?thesis
    using p g ne r1 r2 enc j by simp
qed

text \<open>
  Claim C9. No exception escapes \<open>encrypt_message\<close> or \<open>decrypt_message\<close>: each always
  returns. A key the cipher rejects, a message that does not encode, text that is not
  JSON, a field that is not hexadecimal, a counter that differs and a failed tag
  verification each give the result \<open>None\<close>; when every step succeeds the result is the envelope text, respectively
  the decoded plaintext, and not \<open>None\<close>.
\<close>

theorem no_exception_escapes:
  "(\<exists>r. fst (encrypt_message L key message counter quantum_bit) = Inr r)
   \<and> (\<exists>r. fst (decrypt_message L key data expected) = Inr r)
   \<and> ((\<forall>n p. \<exists>e. aes_gcm_encrypt L key n p = Inl e) \<longrightarrow>
        fst (encrypt_message L key message counter quantum_bit) = Inr None)
   \<and> ((\<forall>n. \<exists>e. aes_new L key n = Inl e) \<longrightarrow>
        fst (encrypt_message L key message counter quantum_bit) = Inr None)
   \<and> (has_surrogate message \<longrightarrow>
        fst (encrypt_message L key message counter quantum_bit) = Inr None)
   \<and> ((\<exists>e. json_loads L wire = Inl e) \<longrightarrow>
        fst (decrypt_message L key (Some wire) expected) = Inr None)
   \<and> (json_loads L wire = Inr obj
        \<and> (\<exists>e. hex_field obj ''nonce'' = Inl e \<or> hex_field obj ''tag'' = Inl e
                \<or> hex_field obj ''ciphertext'' = Inl e) \<longrightarrow>
        fst (decrypt_message L key (Some wire) expected) = Inr None)
   \<and> (json_loads L wire = Inr obj \<and> json_getitem obj ''counter'' = Inr v
        \<and> py_ne_int v expected \<longrightarrow>
        fst (decrypt_message L key (Some wire) expected) = Inr None)
   \<and> (parse_encrypted_data L data = Inr (obj, nonce, tag, ciphertext)
        \<and> (\<exists>e. aes_gcm_decrypt L key nonce ciphertext tag = Inl e) \<longrightarrow>
        fst (decrypt_message L key data expected) = Inr None)
   \<and> (generate_nonce L quantum_bit counter = Inr nonce
        \<and> aes_new L key nonce = Inr cipher
        \<and> str_encode L message = Inr encoded
        \<and> aes_gcm_encrypt L key nonce encoded = Inr (ciphertext, tag) \<longrightarrow>
        fst (encrypt_message L key message counter quantum_bit)
          = Inr (Some (json_dumps L (envelope_json nonce tag ciphertext counter))))
   \<and> (parse_encrypted_data L data = Inr (obj, nonce, tag, ciphertext)
        \<and> json_getitem obj ''counter'' = Inr v \<and> \<not> py_ne_int v expected
        \<and> aes_gcm_decrypt L key nonce ciphertext tag = Inr plaintext
        \<and> utf8_decode L plaintext = Inr decoded \<longrightarrow>
        fst (decrypt_message L key data expected) = Inr (Some decoded))"
proof (intro conjI impI)
  show "\<exists>r. fst (encrypt_message L key message counter quantum_bit) = Inr r"
    by (simp add: encrypt_message_def split: sum.splits prod.splits)
  show "\<exists>r. fst (decrypt_message L key data expected) = Inr r"
    by (simp add: decrypt_message_def split: sum.splits prod.splits)
next
  assume "\<forall>n p. \<exists>e. aes_gcm_encrypt L key n p = Inl e"
  then have "\<And>n p c t. aes_gcm_encrypt L key n p \<noteq> Inr (c, t)"
    by (metis sum.distinct(1))
  then show "fst (encrypt_message L key message counter quantum_bit) = Inr None"
    by (auto simp: encrypt_message_def encrypt_body_def split: sum.splits prod.splits)
next
  assume "\<forall>n. \<exists>e. aes_new L key n = Inl e"
  then have "\<And>n u. aes_new L key n \<noteq> Inr u"
    by (metis sum.distinct(1))
  then show "fst (encrypt_message L key message counter quantum_bit) = Inr None"
    by (auto simp: encrypt_message_def encrypt_body_def split: sum.splits prod.splits)
next
  assume "has_surrogate message"
  then show "fst (encrypt_message L key message counter quantum_bit) = Inr None"
    by (rule surrogate_message(1))
next
  assume "\<exists>e. json_loads L wire = Inl e"
  then show "fst (decrypt_message L key (Some wire) expected) = Inr None"
    by (auto simp: decrypt_message_def decrypt_body_def parse_encrypted_data_def)
next
  assume "json_loads L wire = Inr obj
        \<and> (\<exists>e. hex_field obj ''nonce'' = Inl e \<or> hex_field obj ''tag'' = Inl e
                \<or> hex_field obj ''ciphertext'' = Inl e)"
  then show "fst (decrypt_message L key (Some wire) expected) = Inr None"
    by (auto simp: decrypt_message_def decrypt_body_def parse_encrypted_data_def
        split: sum.splits)
next
  assume "json_loads L wire = Inr obj \<and> json_getitem obj ''counter'' = Inr v
        \<and> py_ne_int v expected"
  then show "fst (decrypt_message L key (Some wire) expected) = Inr None"
    by (auto simp: decrypt_message_def decrypt_body_def parse_encrypted_data_def
        split: sum.splits)
next
  assume "parse_encrypted_data L data = Inr (obj, nonce, tag, ciphertext)
        \<and> (\<exists>e. aes_gcm_decrypt L key nonce ciphertext tag = Inl e)"
  then show "fst (decrypt_message L key data expected) = Inr None"
    by (auto simp: decrypt_message_def decrypt_body_def split: sum.splits)
next
  assume "generate_nonce L quantum_bit counter = Inr nonce
        \<and> aes_new L key nonce = Inr cipher
        \<and> str_encode L message = Inr encoded
        \<and> aes_gcm_encrypt L key nonce encoded = Inr (ciphertext, tag)"
  then show "fst (encrypt_message L key message counter quantum_bit)
          = Inr (Some (json_dumps L (envelope_json nonce tag ciphertext counter)))"
    by (simp add: encrypt_message_def encrypt_body_def)
next
  assume "parse_encrypted_data L data = Inr (obj, nonce, tag, ciphertext)
        \<and> json_getitem obj ''counter'' = Inr v \<and> \<not> py_ne_int v expected
        \<and> aes_gcm_decrypt L key nonce ciphertext tag = Inr plaintext
        \<and> utf8_decode L plaintext = Inr decoded"
  then show "fst (decrypt_message L key data expected) = Inr (Some decoded)"
    by (simp add: decrypt_message_def decrypt_body_def)
qed


theorem no_exception_escapes_witness:
  "fst (encrypt_message demo_libs [1, 2, 3] demo_message 5 1) = Inr None
   \<and> fst (encrypt_message demo_libs [] demo_message 5 1) = Inr None
   \<and> fst (encrypt_message demo_libs demo_key demo_surrogate 5 1) = Inr None
   \<and> fst (decrypt_message demo_libs demo_key (Some []) 5) = Inr None
   \<and> fst (decrypt_message demo_libs demo_key (Some demo_bad_hex) 5) = Inr None
   \<and> fst (decrypt_message demo_libs demo_key (Some demo_envelope) 8) = Inr None
   \<and> fst (decrypt_message demo_libs demo_key (Some demo_envelope) 7) = Inr None
   \<and> fst (decrypt_message demo_libs demo_key None 7) = Inr None
   \<and> (\<exists>text. fst (encrypt_message demo_libs demo_key demo_message 5 1) = Inr (Some text)
        \<and> fst (decrypt_message demo_libs demo_key (Some text) 5) = Inr (Some demo_message))"
proof -
  note T = no_exception_escapes
  have k: "length demo_key \<in> {16, 24, 32}" by (simp add: demo_key_def)
  have c1: "fst (encrypt_message demo_libs [1, 2, 3] demo_message 5 1) = Inr None"
  proof -
    have "\<forall>n p. \<exists>e. aes_gcm_encrypt demo_libs [1, 2, 3] n p = Inl e"
      by (simp add: demo_libs_def demo_aes_gcm_encrypt_def)
    then show ?thesis
      using T [where L = demo_libs and key = "[1, 2, 3]"] by blast
  qed
  have c1a: "fst (encrypt_message demo_libs [] demo_message 5 1) = Inr None"
  proof -
    have "\<forall>n. \<exists>e. aes_new demo_libs [] n = Inl e"
      by (simp add: demo_libs_def demo_aes_new_def)
    then show ?thesis
      using T [where L = demo_libs and key = "[]"] by blast
  qed
  have c1b: "fst (encrypt_message demo_libs demo_key demo_surrogate 5 1) = Inr None"
    using T [where L = demo_libs and key = demo_key and message = demo_surrogate]
      demo_surrogate_str(2) by blast
  have c2: "fst (decrypt_message demo_libs demo_key (Some []) 5) = Inr None"
  proof -
    have "\<exists>e. json_loads demo_libs [] = Inl e"
      by (simp add: demo_libs_def demo_json_loads_def demo_take_field_def)
    then show ?thesis
      using T [where L = demo_libs and wire = "[]"] by blast
  qed
  have c3: "fst (decrypt_message demo_libs demo_key (Some demo_bad_hex) 5) = Inr None"
  proof -
    have l: "json_loads demo_libs demo_bad_hex
        = Inr (JDict [(''nonce'', JStr ''zz''), (''tag'', JStr []), (''ciphertext'', JStr []),
                      (''counter'', JInt 5)])"
      by (simp add: demo_libs_def demo_bad_hex_def demo_json_loads_fields)
    have h: "hex_field (JDict [(''nonce'', JStr ''zz''), (''tag'', JStr []),
                 (''ciphertext'', JStr []), (''counter'', JInt 5)]) ''nonce'' = Inl ValueError"
      by (simp add: hex_field_def json_getitem_def hex_value_def is_ascii_space_def)
    show ?thesis
      using T [where L = demo_libs and wire = demo_bad_hex] l h by blast
  qed
  have loads: "json_loads demo_libs demo_envelope = Inr (envelope_json [1, 2] [3] [4, 5] 7)"
    by (simp add: demo_envelope_def demo_libs_def demo_json_round_trip)
  have c4: "fst (decrypt_message demo_libs demo_key (Some demo_envelope) 8) = Inr None"
  proof -
    have "json_getitem (envelope_json [1, 2] [3] [4, 5] 7) ''counter'' = Inr (JInt 7)"
      by (rule hex_field_envelope)
    moreover have "py_ne_int (JInt 7) 8" by (simp add: py_ne_int_def)
    ultimately show ?thesis
      using T [where L = demo_libs and wire = demo_envelope and expected = 8] loads by blast
  qed
  have c5: "fst (decrypt_message demo_libs demo_key (Some demo_envelope) 7) = Inr None"
  proof -
    have "length (demo_tag demo_key [1, 2] [4, 5]) \<noteq> length [3 :: byte]"
      by (simp add: demo_tag_def)
    then have "[3] \<noteq> demo_tag demo_key [1, 2] [4, 5]" by metis
    then have "\<exists>e. aes_gcm_decrypt demo_libs demo_key [1, 2] [4, 5] [3] = Inl e"
      by (simp add: demo_libs_def demo_aes_gcm_decrypt_def)
    then show ?thesis
      using T [where L = demo_libs and data = "Some demo_envelope" and expected = 7]
        parse_envelope [OF loads] by blast
  qed
  have c6: "fst (decrypt_message demo_libs demo_key None 7) = Inr None"
  proof -
    obtain r where r: "fst (decrypt_message demo_libs demo_key None 7) = Inr r"
      using T [where L = demo_libs and key = demo_key and data = None and expected = 7]
      by blast
    then show ?thesis
      by (simp add: decrypt_message_def decrypt_body_def parse_encrypted_data_def)
  qed
  have c7: "\<exists>text. fst (encrypt_message demo_libs demo_key demo_message 5 1) = Inr (Some text)
        \<and> fst (decrypt_message demo_libs demo_key (Some text) 5) = Inr (Some demo_message)"
  proof -
    obtain n c t where
      enc: "encrypt_message demo_libs demo_key demo_message 5 1
              = (Inr (Some (json_dumps demo_libs (envelope_json n t c 5))), [Aes_gcm_call])"
      and dec: "aes_gcm_decrypt demo_libs demo_key n c t
                  = Inr (utf8_encode demo_libs demo_message)"
      using encrypt_message_ok [OF demo_libs_contract k, of 5 1 demo_message]
        demo_message_str(2) by auto
    have l: "json_loads demo_libs (json_dumps demo_libs (envelope_json n t c 5))
               = Inr (envelope_json n t c 5)"
      using demo_libs_contract by (simp add: lib_contract_def json_contract_loads)
    have u: "utf8_decode demo_libs (utf8_encode demo_libs demo_message) = Inr demo_message"
      using demo_libs_contract demo_message_str by (simp add: lib_contract_def)
    have g: "json_getitem (envelope_json n t c 5) ''counter'' = Inr (JInt 5)"
      by (rule hex_field_envelope)
    have e: "\<not> py_ne_int (JInt 5) 5" by (simp add: py_ne_int_def)
    have "fst (decrypt_message demo_libs demo_key
                 (Some (json_dumps demo_libs (envelope_json n t c 5))) 5) = Inr (Some demo_message)"
      using T [where L = demo_libs and key = demo_key and expected = 5
          and data = "Some (json_dumps demo_libs (envelope_json n t c 5))"]
        parse_envelope [OF l] g e dec u by blast
    then show ?thesis using enc by simp
  qed
  show ?thesis using c1 c1a c1b c2 c3 c4 c5 c6 c7 by blast
qed

section \<open>Properties of the two sessions\<close>

subsection \<open>Key confirmation\<close>

lemma key_verification_match:
  assumes "verification_hash data = Some h" "shared_key s = Some k"
    "h = bytes_hex (sha256 L (take 16 k))"
  shows "handle_key_verification L s data
           = (send (s\<lparr>state := KEY_ESTABLISHED\<rparr>)
                (plain_message ''key_confirmed'' (user_id s) (peer_id s)))
               \<lparr>state := SESSION_ACTIVE\<rparr>"
    and "state (handle_key_verification L s data) = SESSION_ACTIVE"
    and "shared_key (handle_key_verification L s data) = Some k"
  using assms
  by (simp_all add: handle_key_verification_def key_verification_body_def key_hash_hex_def
      send_def)

lemma key_verification_mismatch:
  assumes "verification_hash data = Some h" "shared_key s = Some k"
    "h \<noteq> bytes_hex (sha256 L (take 16 k))"
  shows "handle_key_verification L s data = restart_session s"
    and "state (handle_key_verification L s data) = SESSION_REQUESTED"
    and "shared_key (handle_key_verification L s data) = None"
    and "last (sent (handle_key_verification L s data))
           = plain_message ''session_restart'' (user_id s) (peer_id s)"
  using assms
  by (simp_all add: handle_key_verification_def key_verification_body_def key_hash_hex_def
      restart_session_def send_def)

lemma receive_key_confirmation_mismatch:
  assumes "qkd_shared_key s = Some k" "bytes_fromhex confirmation_hex = Inr their"
    "their \<noteq> take 8 (sha256 L k)"
  shows "receive_key_confirmation L s confirmation_hex
           = (s\<lparr>qkd_state := QKD_SESSION_TERMINATED\<rparr>, Inr (Some (Key_mismatch (session_id s))))"
  using assms by (auto simp: receive_key_confirmation_def Let_def)

lemma receive_key_confirmation_match:
  assumes "qkd_shared_key s = Some k" "bytes_fromhex confirmation_hex = Inr (take 8 (sha256 L k))"
  shows "receive_key_confirmation L s confirmation_hex
           = (s\<lparr>qkd_state := SECURE_CHAT\<rparr>, Inr (Some (Session_ready (session_id s))))"
  using assms by (simp add: receive_key_confirmation_def Let_def)

lemma demo_sha256_demo_key: "take 8 (sha256 demo_libs demo_key) = replicate 8 8"
  by (simp add: demo_libs_def demo_sha256_def demo_key_def)

lemma fromhex_zeros: "bytes_fromhex ''0000000000000000'' = Inr (replicate 8 0)"
  by code_simp

text \<open>
  Claim C4, at the failing input. A \<open>QKDSession\<close> in \<open>KEY_CONFIRMATION\<close> that receives
  a confirmation whose eight bytes differ from its own ends in the terminal state
  \<open>SESSION_TERMINATED\<close> and answers \<open>key_mismatch\<close>: it does not restart, although the
  comment on that branch reads "Key mismatch, restart session".
\<close>

theorem key_mismatch_terminates_qkd_session:
  "qkd_state demo_qkd_session = KEY_CONFIRMATION
   \<and> receive_key_confirmation demo_libs demo_qkd_session ''0000000000000000''
       = (demo_qkd_session\<lparr>qkd_state := QKD_SESSION_TERMINATED\<rparr>,
          Inr (Some (Key_mismatch ''s1'')))"
proof -
  have k: "qkd_shared_key demo_qkd_session = Some demo_key"
    and i: "session_id demo_qkd_session = ''s1''"
    and st: "qkd_state demo_qkd_session = KEY_CONFIRMATION"
    by (simp_all add: demo_qkd_session_def new_qkd_session_def)
  have ne: "replicate 8 (0 :: byte) \<noteq> take 8 (sha256 demo_libs demo_key)"
    by (simp add: demo_sha256_demo_key)
  show ?thesis
    using receive_key_confirmation_mismatch [OF k fromhex_zeros ne] i st by simp
qed

subsection \<open>Envelopes out of turn\<close>

lemma guarded_handlers_drop:
  "state s \<noteq> IDLE \<Longrightarrow> start_session s = (s, False)"
  "state s \<noteq> IDLE \<Longrightarrow> handle_session_request s data = (s, False)"
  "state s \<noteq> SESSION_REQUESTED \<Longrightarrow> handle_session_accept s data = (s, False)"
  "state s \<noteq> QKD_EXCHANGING \<Longrightarrow> handle_qkd_measurements L s data = s"
  by (simp_all add: start_session_def handle_session_request_def handle_session_accept_def
      handle_qkd_measurements_def)

lemma key_confirmed_from_any_state: "state (handle_key_confirmed s data) = SESSION_ACTIVE"
  by (simp add: handle_key_confirmed_def)

text \<open>
  Claim C5, at failing inputs. \<open>handle_key_confirmed\<close> has no guard on the state: a
  \<open>key_confirmed\<close> envelope moves a fresh session from \<open>IDLE\<close>, and a terminated one
  from \<open>SESSION_TERMINATED\<close>, to \<open>SESSION_ACTIVE\<close>. \<open>handle_key_verification\<close> has none
  either: on a fresh session a \<open>key_verification\<close> envelope changes the state to
  \<open>SESSION_REQUESTED\<close> and sends a \<open>session_restart\<close>.
\<close>

theorem key_confirmed_is_not_fenced:
  "state (new_session ''alice'' ''bob'') = IDLE
   \<and> state (handle_key_confirmed (new_session ''alice'' ''bob'')
              (plain_message ''key_confirmed'' ''bob'' ''alice'')) = SESSION_ACTIVE
   \<and> state (terminate_session (new_session ''alice'' ''bob'')) = SESSION_TERMINATED
   \<and> state (handle_key_confirmed (terminate_session (new_session ''alice'' ''bob''))
              (plain_message ''key_confirmed'' ''bob'' ''alice'')) = SESSION_ACTIVE
   \<and> handle_key_verification demo_libs (new_session ''alice'' ''bob'')
        ((plain_message ''key_verification'' ''bob'' ''alice'')
           \<lparr>verification_hash := Some ''00''\<rparr>)
       = (new_session ''alice'' ''bob'')
           \<lparr>state := SESSION_REQUESTED,
            sent := [plain_message ''session_restart'' ''alice'' ''bob'']\<rparr>"
  by (simp add: new_session_def handle_key_confirmed_def terminate_session_def send_def
      handle_key_verification_def key_verification_body_def key_hash_hex_def
      restart_session_def plain_message_def)

lemma qkd_error_correction_bits:
  assumes "final_key s = Some key_bits" "set key_bits \<subseteq> {0, 1}"
  shows "\<exists>key_bytes. qkd_shared_key (fst (qkd_error_correction L s)) = Some (sha256 L key_bytes)
           \<and> qkd_state (fst (qkd_error_correction L s)) = KEY_CONFIRMATION"
proof -
  define padded where
    "padded = (if length key_bits < 32 then key_bits @ replicate (32 - length key_bits) 0
               else key_bits)"
  have "set padded \<subseteq> {0, 1}"
    using assms(2) by (auto simp: padded_def)
  then obtain key_bytes where "bits_to_bytes padded = Inr key_bytes"
    using bits_to_bytes_ok by blast
  then show ?thesis
    using assms(1)
    by (auto simp: qkd_error_correction_def Let_def padded_def [symmetric] key_confirmation_def)
qed

text \<open>
  \<open>SessionManager.handle_qkd_message\<close> passes a \<open>qber_sample\<close> envelope to
  \<open>receive_qber_sample\<close> without looking at the state. A session that is already in
  \<open>SECURE_CHAT\<close> then recomputes its shared key and falls back to \<open>KEY_CONFIRMATION\<close>.
\<close>

lemma qber_sample_in_secure_chat:
  assumes "qkd_state s = SECURE_CHAT" "sifted_key s = [1, 0, 1]"
  shows "\<exists>key_bytes.
           qkd_shared_key (fst (receive_qber_sample L s [0, 1, 2] [1, 0, 1]))
             = Some (sha256 L key_bytes)
           \<and> qkd_state (fst (receive_qber_sample L s [0, 1, 2] [1, 0, 1])) = KEY_CONFIRMATION"
proof -
  have c: "count_sample_errors (sifted_key s) 0 [0, 1, 2] [1, 0, 1] 0 = Inr 0"
    by (simp add: assms(2) py_getitem_def py_index_def)
  have e: "receive_qber_sample L s [0, 1, 2] [1, 0, 1]
      = qkd_error_correction L
          (s\<lparr>final_key := Some (remove_sampled (sifted_key s) [0, 1, 2]),
             final_is_sifted := False, qkd_state := ERROR_CORRECTION\<rparr>)"
    by (simp add: receive_qber_sample_def c del: count_sample_errors.simps)
  have "set (remove_sampled (sifted_key s) [0, 1, 2]) \<subseteq> {0, 1}"
    by (auto simp: remove_sampled_def assms(2) enumerate_eq_zip)
  then show ?thesis
    unfolding e by (intro qkd_error_correction_bits) simp_all
qed

subsection \<open>Termination\<close>

lemma terminate_session_clears:
  "state (terminate_session s) = SESSION_TERMINATED"
  "alice_bits (terminate_session s) = []"
  "alice_bases (terminate_session s) = []"
  "bob_bases (terminate_session s) = []"
  "qubits (terminate_session s) = []"
  "shared_key (terminate_session s) = None"
  "qber (terminate_session s) = 0"
  "message_counter (terminate_session s) = 0"
  "last (sent (terminate_session s)) = plain_message ''session_terminated'' (user_id s) (peer_id s)"
  by (simp_all add: terminate_session_def send_def)

lemma qkd_terminate_session_keeps:
  "qkd_alice_bits (fst (qkd_terminate_session s)) = qkd_alice_bits s"
  "alice_basis (fst (qkd_terminate_session s)) = alice_basis s"
  "alice_states (fst (qkd_terminate_session s)) = alice_states s"
  "bob_basis (fst (qkd_terminate_session s)) = bob_basis s"
  "bob_measurements (fst (qkd_terminate_session s)) = bob_measurements s"
  by (simp_all add: qkd_terminate_session_def)

lemma qkd_terminate_session_clears:
  "qkd_state (fst (qkd_terminate_session s)) = QKD_SESSION_TERMINATED"
  "qkd_shared_key (fst (qkd_terminate_session s)) = None"
  "final_key (fst (qkd_terminate_session s)) = None"
  "sifted_key (fst (qkd_terminate_session s)) = []"
  by (simp_all add: qkd_terminate_session_def)

text \<open>
  Claim C6, at the failing input. \<open>QKDSession.terminate_session\<close> clears the shared
  key, the final key and the sifted key, and leaves Alice's bits, bases and state
  symbols and Bob's bases and measurements as they were.
\<close>

theorem qkd_terminate_leaves_transient_arrays:
  "qkd_shared_key (fst (qkd_terminate_session demo_qkd_session)) = None
   \<and> final_key (fst (qkd_terminate_session demo_qkd_session)) = None
   \<and> sifted_key (fst (qkd_terminate_session demo_qkd_session)) = []
   \<and> qkd_alice_bits (fst (qkd_terminate_session demo_qkd_session)) = [1, 0, 1, 1]
   \<and> alice_basis (fst (qkd_terminate_session demo_qkd_session)) = [0, 1, 1, 0]
   \<and> alice_states (fst (qkd_terminate_session demo_qkd_session))
       = [''|1>'', ''|+'', ''|-'', ''|1>'']
   \<and> bob_basis (fst (qkd_terminate_session demo_qkd_session)) = [0, 1, 0, 0]
   \<and> bob_measurements (fst (qkd_terminate_session demo_qkd_session)) = [1, 0, 0, 1]"
  by (simp add: qkd_terminate_session_def demo_qkd_session_def new_qkd_session_def)

subsection \<open>The error-rate check\<close>

lemma demo_choice_ok: "choice_without_replacement demo_choice"
  by (simp add: choice_without_replacement_def demo_choice_def)

lemma sample_bits_of_ok:
  "\<forall>i \<in> set idx. i < length key \<Longrightarrow> sample_bits_of key idx = Inr (map ((!) key) idx)"
  by (induction idx) (simp_all add: py_index_def)

lemma remove_sampled_nths:
  "remove_sampled key sample_indices = nths key {i. int i \<notin> set sample_indices}"
proof -
  have "enumerate 0 key = map (\<lambda>(b, i). (i, b)) (zip key [0..<length key])"
    by (simp add: enumerate_eq_zip zip_commute [of "[0..<length key]" key])
  then show ?thesis
    by (simp add: remove_sampled_def nths_def filter_map comp_def case_prod_unfold)
qed

lemma length_remove_sampled:
  assumes "distinct ns" "\<forall>i \<in> set ns. i < length key"
  shows "length (remove_sampled key (map int ns)) = length key - length ns"
proof -
  have "{i. i < length key \<and> int i \<notin> set (map int ns)} = {..<length key} - set ns"
    by auto
  moreover have "card ({..<length key} - set ns) = length key - card (set ns)"
    using assms(2) by (subst card_Diff_subset) auto
  ultimately show ?thesis
    using assms(1) by (simp add: remove_sampled_nths length_nths distinct_card)
qed

lemma qkd_error_correction_reply:
  assumes "snd (qkd_error_correction L s) = Inr r"
  shows "\<exists>k. qkd_shared_key (fst (qkd_error_correction L s)) = Some k
       \<and> r = Some (Key_confirmation (session_id s) (bytes_hex (take 8 (sha256 L k))))
       \<and> qkd_state (fst (qkd_error_correction L s)) = KEY_CONFIRMATION"
proof (cases "final_key s")
  case None
  with assms show ?thesis by (simp add: qkd_error_correction_def)
next
  case (Some key_bits)
  define padded where
    "padded = (if length key_bits < 32 then key_bits @ replicate (32 - length key_bits) 0
               else key_bits)"
  show ?thesis
  proof (cases "bits_to_bytes padded")
    case (Inl e)
    with assms Some show ?thesis
      by (simp add: qkd_error_correction_def Let_def padded_def [symmetric])
  next
    case (Inr key_bytes)
    with assms Some show ?thesis
      by (simp add: qkd_error_correction_def Let_def padded_def [symmetric]
          key_confirmation_def)
  qed
qed

text \<open>
  Claim C7 (amended). With fewer than 20 sifted bits \<open>perform_qber_check\<close> draws no
  sample: it takes the sifted key as the final key and runs the error-correction step,
  whose only answer is a key confirmation. Otherwise the initiator draws exactly
  \<open>max(5, floor(len / 4))\<close> distinct positions of the sifted key and sends them with the
  bits at those positions. The session that receives a sample compares it with its own
  bits and, unless the error rate exceeds 0.11 (then it aborts), continues to error
  correction with the sifted key from which exactly the sampled positions are removed.

  The amended claim says nothing of the working key of the session that drew the
  sample. \<open>perform_qber_check\<close> returns that session unchanged: it removes no position
  and assigns no final key, so the initiator never gets a shared key and a later
  \<open>receive_key_confirmation\<close> on it raises TypeError (\<open>initiator_cannot_confirm\<close> below).
  That is an omission of the source, not a design the claim should record.
\<close>

theorem qber_sampling_policy:
  "(length (sifted_key s) < 20 \<longrightarrow>
      perform_qber_check L choice s
        = qkd_error_correction L
            (s\<lparr>final_key := Some (sifted_key s), final_is_sifted := True,
               qkd_state := ERROR_CORRECTION\<rparr>)
      \<and> (\<forall>i idx bits. snd (perform_qber_check L choice s)
                          \<noteq> Inr (Some (Qber_sample i idx bits))))
   \<and> (20 \<le> length (sifted_key s) \<and> is_initiator s \<and> choice_without_replacement choice \<longrightarrow>
        (\<exists>idx. perform_qber_check L choice s
                  = (s, Inr (Some (Qber_sample (session_id s) (map int idx)
                                     (map ((!) (sifted_key s)) idx))))
               \<and> length idx = max 5 (length (sifted_key s) div 4)
               \<and> distinct idx \<and> (\<forall>i \<in> set idx. i < length (sifted_key s))))
   \<and> (count_sample_errors (sifted_key s) 0 sample_indices sample_bits 0 = Inr errors
        \<and> sample_indices \<noteq> []
        \<and> real errors / real (length sample_indices) \<le> 11 / 100 \<longrightarrow>
        receive_qber_sample L s sample_indices sample_bits
          = qkd_error_correction L
              (s\<lparr>final_key := Some (nths (sifted_key s) {i. int i \<notin> set sample_indices}),
                 final_is_sifted := False, qkd_state := ERROR_CORRECTION\<rparr>))
   \<and> (distinct ns \<and> (\<forall>i \<in> set ns. i < length (sifted_key s)) \<longrightarrow>
        length (nths (sifted_key s) {i. int i \<notin> set (map int ns)})
          = length (sifted_key s) - length ns)"
proof (intro conjI impI allI)
  assume short: "length (sifted_key s) < 20"
  then show eq: "perform_qber_check L choice s
        = qkd_error_correction L
            (s\<lparr>final_key := Some (sifted_key s), final_is_sifted := True,
               qkd_state := ERROR_CORRECTION\<rparr>)"
    by (simp add: perform_qber_check_def)
  fix i idx bits
  show "snd (perform_qber_check L choice s) \<noteq> Inr (Some (Qber_sample i idx bits))"
    using qkd_error_correction_reply [of L
        "s\<lparr>final_key := Some (sifted_key s), final_is_sifted := True,
           qkd_state := ERROR_CORRECTION\<rparr>" "Some (Qber_sample i idx bits)"]
    unfolding eq by auto
next
  assume a: "20 \<le> length (sifted_key s) \<and> is_initiator s \<and> choice_without_replacement choice"
  define n where "n = length (sifted_key s)"
  define idx where "idx = choice n (max 5 (n div 4))"
  have "max 5 (n div 4) \<le> n" using a by (simp add: n_def)
  then have p: "length idx = max 5 (n div 4)" "distinct idx" "\<forall>i \<in> set idx. i < n"
    using a unfolding choice_without_replacement_def idx_def by blast+
  have "perform_qber_check L choice s
          = (s, Inr (Some (Qber_sample (session_id s) (map int idx)
                             (map ((!) (sifted_key s)) idx))))"
    using a p(3) sample_bits_of_ok [of idx "sifted_key s"]
    by (simp add: perform_qber_check_def Let_def n_def [symmetric] idx_def [symmetric])
  with p show "\<exists>idx. perform_qber_check L choice s
                  = (s, Inr (Some (Qber_sample (session_id s) (map int idx)
                                     (map ((!) (sifted_key s)) idx))))
               \<and> length idx = max 5 (length (sifted_key s) div 4)
               \<and> distinct idx \<and> (\<forall>i \<in> set idx. i < length (sifted_key s))"
    unfolding n_def by blast
next
  assume "count_sample_errors (sifted_key s) 0 sample_indices sample_bits 0 = Inr errors
        \<and> sample_indices \<noteq> []
        \<and> real errors / real (length sample_indices) \<le> 11 / 100"
  then show "receive_qber_sample L s sample_indices sample_bits
          = qkd_error_correction L
              (s\<lparr>final_key := Some (nths (sifted_key s) {i. int i \<notin> set sample_indices}),
                 final_is_sifted := False, qkd_state := ERROR_CORRECTION\<rparr>)"
    by (simp add: receive_qber_sample_def Let_def remove_sampled_nths)
next
  assume "distinct ns \<and> (\<forall>i \<in> set ns. i < length (sifted_key s))"
  then show "length (nths (sifted_key s) {i. int i \<notin> set (map int ns)})
          = length (sifted_key s) - length ns"
    using length_remove_sampled [of ns "sifted_key s"] by (simp add: remove_sampled_nths)
qed


lemma demo_initiator_sample:
  "perform_qber_check demo_libs demo_choice demo_initiator
     = (demo_initiator, Inr (Some (Qber_sample ''s2'' [0, 1, 2, 3, 4] [1, 1, 1, 1, 1])))"
proof -
  have u: "[0..<5] = [0, 1, 2, 3, 4]" by code_simp
  have "sample_bits_of (replicate 21 1) [0, 1, 2, 3, 4] = Inr [1, 1, 1, 1, 1]"
    by (simp add: py_index_def)
  then show ?thesis
    by (simp add: perform_qber_check_def demo_initiator_def new_qkd_session_def
        demo_choice_def u)
qed

theorem qber_sampling_policy_witness:
  "length (sifted_key demo_responder) < 20
   \<and> perform_qber_check demo_libs demo_choice demo_responder
       = qkd_error_correction demo_libs
           (demo_responder\<lparr>final_key := Some [1, 0, 1], final_is_sifted := True,
              qkd_state := ERROR_CORRECTION\<rparr>)
   \<and> 20 \<le> length (sifted_key demo_initiator) \<and> is_initiator demo_initiator
   \<and> choice_without_replacement demo_choice
   \<and> (\<exists>idx. perform_qber_check demo_libs demo_choice demo_initiator
                = (demo_initiator,
                   Inr (Some (Qber_sample ''s2'' (map int idx)
                                (map ((!) (sifted_key demo_initiator)) idx))))
             \<and> length idx = 5 \<and> distinct idx)
   \<and> count_sample_errors (sifted_key demo_responder) 0 [0, 2] [1, 1] 0 = Inr 0
   \<and> receive_qber_sample demo_libs demo_responder [0, 2] [1, 1]
       = qkd_error_correction demo_libs
           (demo_responder\<lparr>final_key := Some (nths [1, 0, 1] {i. int i \<notin> {0, 2}}),
              final_is_sifted := False, qkd_state := ERROR_CORRECTION\<rparr>)
   \<and> length (nths (sifted_key demo_responder) {i. int i \<notin> set (map int [0, 2])}) = 1"
proof -
  note T = qber_sampling_policy
  have r: "sifted_key demo_responder = [1, 0, 1]"
    by (simp add: demo_responder_def new_qkd_session_def)
  have i: "sifted_key demo_initiator = replicate 21 1" "is_initiator demo_initiator"
    "session_id demo_initiator = ''s2''"
    by (simp_all add: demo_initiator_def new_qkd_session_def)
  have c: "count_sample_errors (sifted_key demo_responder) 0 [0, 2] [1, 1] 0 = Inr 0"
    by (simp add: r py_getitem_def py_index_def)
  have t1: "perform_qber_check demo_libs demo_choice demo_responder
       = qkd_error_correction demo_libs
           (demo_responder\<lparr>final_key := Some [1, 0, 1], final_is_sifted := True,
              qkd_state := ERROR_CORRECTION\<rparr>)"
    using T [where s = demo_responder and L = demo_libs and choice = demo_choice] r by simp
  have t2: "\<exists>idx. perform_qber_check demo_libs demo_choice demo_initiator
                = (demo_initiator,
                   Inr (Some (Qber_sample ''s2'' (map int idx)
                                (map ((!) (sifted_key demo_initiator)) idx))))
             \<and> length idx = 5 \<and> distinct idx"
  proof -
    have "20 \<le> length (sifted_key demo_initiator) \<and> is_initiator demo_initiator
        \<and> choice_without_replacement demo_choice"
      using i demo_choice_ok by simp
    then obtain idx where
      "perform_qber_check demo_libs demo_choice demo_initiator
         = (demo_initiator,
            Inr (Some (Qber_sample (session_id demo_initiator) (map int idx)
                         (map ((!) (sifted_key demo_initiator)) idx))))"
      "length idx = max 5 (length (sifted_key demo_initiator) div 4)" "distinct idx"
      using T [where s = demo_initiator and L = demo_libs and choice = demo_choice
          and sample_indices = "[]" and sample_bits = "[]" and errors = 0 and ns = "[]"]
      by blast
    then show ?thesis using i by auto
  qed
  have t3: "receive_qber_sample demo_libs demo_responder [0, 2] [1, 1]
       = qkd_error_correction demo_libs
           (demo_responder\<lparr>final_key := Some (nths [1, 0, 1] {i. int i \<notin> {0, 2}}),
              final_is_sifted := False, qkd_state := ERROR_CORRECTION\<rparr>)"
    using T [where s = demo_responder and L = demo_libs and sample_indices = "[0, 2]"
        and sample_bits = "[1, 1]" and errors = 0] c r by simp
  have t4: "length (nths (sifted_key demo_responder) {i. int i \<notin> set (map int [0, 2])}) = 1"
    using T [where s = demo_responder and ns = "[0, 2]"] r by simp
  show ?thesis
    using t1 t2 t3 t4 c r i demo_choice_ok by simp
qed

lemma initiator_cannot_confirm:
  "receive_key_confirmation L (fst (perform_qber_check demo_libs demo_choice demo_initiator))
     confirmation_hex
     = (demo_initiator, Inl TypeError)"
proof -
  have "qkd_shared_key demo_initiator = None"
    by (simp add: demo_initiator_def new_qkd_session_def)
  then show ?thesis
    by (simp add: demo_initiator_sample receive_key_confirmation_def)
qed

text \<open>
  The claim as first stated fails in three ways. With 21 sifted bits the sample has 5
  positions, where \<open>max(5, ceil(21 / 4))\<close> is 6. The session that drew the sample is
  returned unchanged: its working key still holds all 21 bits and it has no final key.
  And a session that receives a sample with error rate 1/3 removes nothing either: it
  aborts with its sifted key intact.
\<close>

theorem qber_sampling_claim_fails:
  "length (sifted_key demo_initiator) = 21
   \<and> perform_qber_check demo_libs demo_choice demo_initiator
       = (demo_initiator, Inr (Some (Qber_sample ''s2'' [0, 1, 2, 3, 4] [1, 1, 1, 1, 1])))
   \<and> length [0, 1, 2, 3, 4 :: int] = 5
   \<and> max 5 (nat \<lceil>(21 :: real) / 4\<rceil>) = 6
   \<and> sifted_key (fst (perform_qber_check demo_libs demo_choice demo_initiator))
       = replicate 21 1
   \<and> final_key (fst (perform_qber_check demo_libs demo_choice demo_initiator)) = None
   \<and> receive_qber_sample demo_libs demo_responder [0, 1, 2] [0, 0, 1]
       = (demo_responder\<lparr>qkd_state := QKD_SESSION_TERMINATED\<rparr>,
          Inr (Some (Qkd_abort ''s3'' (1 / 3))))
   \<and> sifted_key (demo_responder\<lparr>qkd_state := QKD_SESSION_TERMINATED\<rparr>) = [1, 0, 1]
   \<and> final_key (demo_responder\<lparr>qkd_state := QKD_SESSION_TERMINATED\<rparr>) = None"
proof -
  have c: "\<lceil>(21 :: real) / 4\<rceil> = 6" by (simp add: ceiling_eq_iff)
  have i: "length (sifted_key demo_initiator) = 21"
    "sifted_key demo_initiator = replicate 21 1" "final_key demo_initiator = None"
    by (simp_all add: demo_initiator_def new_qkd_session_def)
  have r: "receive_qber_sample demo_libs demo_responder [0, 1, 2] [0, 0, 1]
       = (demo_responder\<lparr>qkd_state := QKD_SESSION_TERMINATED\<rparr>,
          Inr (Some (Qkd_abort ''s3'' (1 / 3))))"
    "sifted_key (demo_responder\<lparr>qkd_state := QKD_SESSION_TERMINATED\<rparr>) = [1, 0, 1]"
    "final_key (demo_responder\<lparr>qkd_state := QKD_SESSION_TERMINATED\<rparr>) = None"
    by (simp_all add: receive_qber_sample_def demo_responder_def new_qkd_session_def
        py_getitem_def py_index_def)
  show ?thesis
    using c i r demo_initiator_sample by simp
qed

subsection \<open>High error rate\<close>

lemma restart_session_fields:
  "state (restart_session s) = SESSION_REQUESTED"
  "alice_bits (restart_session s) = []"
  "alice_bases (restart_session s) = []"
  "bob_bases (restart_session s) = []"
  "qubits (restart_session s) = []"
  "shared_key (restart_session s) = None"
  "qber (restart_session s) = 0"
  "message_counter (restart_session s) = 0"
  "sent (restart_session s) = sent s @ [plain_message ''session_restart'' (user_id s) (peer_id s)]"
  by (simp_all add: restart_session_def send_def)

text \<open>
  Claim C3 (amended). In \<open>QuantumSession.handle_qkd_measurements\<close> an error rate above
  11 percent restarts the session: the arrays and the key are cleared, the state is
  \<open>SESSION_REQUESTED\<close> and a \<open>session_restart\<close> request is sent; at 11 percent or below
  the handler goes on to error correction and key verification. In
  \<open>QKDSession.receive_qber_sample\<close> a sample error rate above 0.11 aborts instead: the
  state becomes \<open>SESSION_TERMINATED\<close> and the answer is \<open>qkd_abort\<close>; at 0.11 or below the
  session proceeds to error correction.
\<close>

theorem qber_above_threshold:
  "(state s = QKD_EXCHANGING \<and> measurements data = Some ms
      \<and> sift_keys (alice_bits s) (alice_bases s) ms (bob_bases s)
          = Inr (sifted, alice_sifted, bob_sifted) \<longrightarrow>
      (11 < calculate_qber alice_sifted bob_sifted \<longrightarrow>
         handle_qkd_measurements L s data
           = restart_session (s\<lparr>qber := calculate_qber alice_sifted bob_sifted\<rparr>)
         \<and> state (handle_qkd_measurements L s data) = SESSION_REQUESTED
         \<and> alice_bits (handle_qkd_measurements L s data) = []
         \<and> alice_bases (handle_qkd_measurements L s data) = []
         \<and> bob_bases (handle_qkd_measurements L s data) = []
         \<and> qubits (handle_qkd_measurements L s data) = []
         \<and> shared_key (handle_qkd_measurements L s data) = None
         \<and> sent (handle_qkd_measurements L s data)
             = sent s @ [plain_message ''session_restart'' (user_id s) (peer_id s)])
      \<and> (calculate_qber alice_sifted bob_sifted \<le> 11
           \<and> error_correction L alice_sifted bob_sifted = Inr (corrected_alice, corrected_bob)
           \<and> generate_final_key L corrected_alice = Inr k \<longrightarrow>
           handle_qkd_measurements L s data
             = verify_key_consistency L
                 (s\<lparr>qber := calculate_qber alice_sifted bob_sifted, shared_key := Some k\<rparr>)))
   \<and> (count_sample_errors (sifted_key q) 0 sample_indices sample_bits 0 = Inr errors
        \<and> sample_indices \<noteq> [] \<longrightarrow>
        (11 / 100 < real errors / real (length sample_indices) \<longrightarrow>
           receive_qber_sample L q sample_indices sample_bits
             = (q\<lparr>qkd_state := QKD_SESSION_TERMINATED\<rparr>,
                Inr (Some (Qkd_abort (session_id q)
                             (real errors / real (length sample_indices))))))
        \<and> (real errors / real (length sample_indices) \<le> 11 / 100 \<longrightarrow>
             receive_qber_sample L q sample_indices sample_bits
               = qkd_error_correction L
                   (q\<lparr>final_key := Some (remove_sampled (sifted_key q) sample_indices),
                      final_is_sifted := False, qkd_state := ERROR_CORRECTION\<rparr>)))"
proof (intro conjI impI)
  assume a: "state s = QKD_EXCHANGING \<and> measurements data = Some ms
      \<and> sift_keys (alice_bits s) (alice_bases s) ms (bob_bases s)
          = Inr (sifted, alice_sifted, bob_sifted)"
  {
    assume hi: "11 < calculate_qber alice_sifted bob_sifted"
    show r: "handle_qkd_measurements L s data
           = restart_session (s\<lparr>qber := calculate_qber alice_sifted bob_sifted\<rparr>)"
      using a hi by (simp add: handle_qkd_measurements_def qkd_measurements_body_def Let_def)
    show "state (handle_qkd_measurements L s data) = SESSION_REQUESTED"
      "alice_bits (handle_qkd_measurements L s data) = []"
      "alice_bases (handle_qkd_measurements L s data) = []"
      "bob_bases (handle_qkd_measurements L s data) = []"
      "qubits (handle_qkd_measurements L s data) = []"
      "shared_key (handle_qkd_measurements L s data) = None"
      "sent (handle_qkd_measurements L s data)
             = sent s @ [plain_message ''session_restart'' (user_id s) (peer_id s)]"
      unfolding r by (simp_all add: restart_session_fields)
  }
  {
    assume "calculate_qber alice_sifted bob_sifted \<le> 11
           \<and> error_correction L alice_sifted bob_sifted = Inr (corrected_alice, corrected_bob)
           \<and> generate_final_key L corrected_alice = Inr k"
    then show "handle_qkd_measurements L s data
             = verify_key_consistency L
                 (s\<lparr>qber := calculate_qber alice_sifted bob_sifted, shared_key := Some k\<rparr>)"
      using a by (simp add: handle_qkd_measurements_def qkd_measurements_body_def Let_def)
  }
next
  assume b: "count_sample_errors (sifted_key q) 0 sample_indices sample_bits 0 = Inr errors
        \<and> sample_indices \<noteq> []"
  {
    assume "11 / 100 < real errors / real (length sample_indices)"
    then show "receive_qber_sample L q sample_indices sample_bits
             = (q\<lparr>qkd_state := QKD_SESSION_TERMINATED\<rparr>,
                Inr (Some (Qkd_abort (session_id q)
                             (real errors / real (length sample_indices)))))"
      using b by (simp add: receive_qber_sample_def Let_def)
  }
  {
    assume "real errors / real (length sample_indices) \<le> 11 / 100"
    then show "receive_qber_sample L q sample_indices sample_bits
               = qkd_error_correction L
                   (q\<lparr>final_key := Some (remove_sampled (sifted_key q) sample_indices),
                      final_is_sifted := False, qkd_state := ERROR_CORRECTION\<rparr>)"
      using b by (simp add: receive_qber_sample_def Let_def)
  }
qed


lemma demo_exchanging_fields:
  "state demo_exchanging = QKD_EXCHANGING" "alice_bits demo_exchanging = [0, 1]"
  "alice_bases demo_exchanging = [0, 0]" "bob_bases demo_exchanging = [0, 0]"
  "user_id demo_exchanging = ''alice''" "peer_id demo_exchanging = ''bob''"
  "sent demo_exchanging = []"
  by (simp_all add: demo_exchanging_def new_session_def)

lemma demo_sift:
  "sift_keys [0, 1] [0, 0] ms [0, 0] = (if 2 \<le> length ms then Inr ([ms ! 0, ms ! 1], [0, 1], [ms ! 0, ms ! 1]) else Inl IndexError)"
proof -
  have u: "[0..<2] = [0, 1]" by code_simp
  show ?thesis
    by (auto simp: sift_keys_def u py_index_def)
qed

lemma demo_error_correction: "error_correction demo_libs [0, 1] [0, 1] = Inr ([0, 1], [0, 1])"
  by (simp add: error_correction_def error_correction_loop.simps Let_def)

theorem qber_above_threshold_witness:
  "state demo_exchanging = QKD_EXCHANGING
   \<and> sift_keys (alice_bits demo_exchanging) (alice_bases demo_exchanging) [1, 0]
         (bob_bases demo_exchanging) = Inr ([1, 0], [0, 1], [1, 0])
   \<and> calculate_qber [0, 1] [1, 0] = 100
   \<and> handle_qkd_measurements demo_libs demo_exchanging (measurements_message [1, 0])
       = restart_session (demo_exchanging\<lparr>qber := 100\<rparr>)
   \<and> state (handle_qkd_measurements demo_libs demo_exchanging (measurements_message [1, 0]))
       = SESSION_REQUESTED
   \<and> sent (handle_qkd_measurements demo_libs demo_exchanging (measurements_message [1, 0]))
       = [plain_message ''session_restart'' ''alice'' ''bob'']
   \<and> calculate_qber [0, 1] [0, 1] = 0
   \<and> handle_qkd_measurements demo_libs demo_exchanging (measurements_message [0, 1])
       = verify_key_consistency demo_libs
           (demo_exchanging\<lparr>qber := 0, shared_key := Some (replicate 32 0)\<rparr>)
   \<and> count_sample_errors (sifted_key demo_responder) 0 [0, 1, 2] [0, 0, 1] 0 = Inr 1
   \<and> receive_qber_sample demo_libs demo_responder [0, 1, 2] [0, 0, 1]
       = (demo_responder\<lparr>qkd_state := QKD_SESSION_TERMINATED\<rparr>,
          Inr (Some (Qkd_abort ''s3'' (1 / 3))))
   \<and> count_sample_errors (sifted_key demo_responder) 0 [0, 1, 2] [1, 0, 1] 0 = Inr 0
   \<and> receive_qber_sample demo_libs demo_responder [0, 1, 2] [1, 0, 1]
       = qkd_error_correction demo_libs
           (demo_responder\<lparr>final_key := Some (remove_sampled [1, 0, 1] [0, 1, 2]),
              final_is_sifted := False, qkd_state := ERROR_CORRECTION\<rparr>)"
proof -
  note T = qber_above_threshold
  note f = demo_exchanging_fields
  have r: "sifted_key demo_responder = [1, 0, 1]" "session_id demo_responder = ''s3''"
    by (simp_all add: demo_responder_def new_qkd_session_def)
  have m: "measurements (measurements_message ms) = Some ms" for ms
    by (simp add: measurements_message_def plain_message_def)
  have s1: "sift_keys (alice_bits demo_exchanging) (alice_bases demo_exchanging) [1, 0]
         (bob_bases demo_exchanging) = Inr ([1, 0], [0, 1], [1, 0])"
    by (simp add: f demo_sift)
  have s2: "sift_keys (alice_bits demo_exchanging) (alice_bases demo_exchanging) [0, 1]
         (bob_bases demo_exchanging) = Inr ([0, 1], [0, 1], [0, 1])"
    by (simp add: f demo_sift)
  have q1: "calculate_qber [0, 1] [1, 0] = 100" by (simp add: calculate_qber_def)
  have q2: "calculate_qber [0, 1] [0, 1] = 0" by (simp add: calculate_qber_def)
  have g: "generate_final_key demo_libs [0, 1] = Inr (replicate 32 0)"
    by (simp add: generate_final_key_short)
  have c1: "count_sample_errors (sifted_key demo_responder) 0 [0, 1, 2] [0, 0, 1] 0 = Inr 1"
    by (simp add: r py_getitem_def py_index_def)
  have c2: "count_sample_errors (sifted_key demo_responder) 0 [0, 1, 2] [1, 0, 1] 0 = Inr 0"
    by (simp add: r py_getitem_def py_index_def)
  have t1: "handle_qkd_measurements demo_libs demo_exchanging (measurements_message [1, 0])
       = restart_session (demo_exchanging\<lparr>qber := 100\<rparr>)
     \<and> state (handle_qkd_measurements demo_libs demo_exchanging (measurements_message [1, 0]))
       = SESSION_REQUESTED
     \<and> sent (handle_qkd_measurements demo_libs demo_exchanging (measurements_message [1, 0]))
       = [plain_message ''session_restart'' ''alice'' ''bob'']"
  proof -
    have h: "state demo_exchanging = QKD_EXCHANGING
        \<and> measurements (measurements_message [1, 0]) = Some [1, 0]
        \<and> sift_keys (alice_bits demo_exchanging) (alice_bases demo_exchanging) [1, 0]
            (bob_bases demo_exchanging) = Inr ([1, 0], [0, 1], [1, 0])"
      using f(1) m s1 by simp
    have hi: "11 < calculate_qber [0, 1] [1, 0]" by (simp add: q1)
    have "handle_qkd_measurements demo_libs demo_exchanging (measurements_message [1, 0])
        = restart_session (demo_exchanging\<lparr>qber := calculate_qber [0, 1] [1, 0]\<rparr>)
      \<and> state (handle_qkd_measurements demo_libs demo_exchanging (measurements_message [1, 0]))
        = SESSION_REQUESTED
      \<and> sent (handle_qkd_measurements demo_libs demo_exchanging (measurements_message [1, 0]))
        = sent demo_exchanging
          @ [plain_message ''session_restart'' (user_id demo_exchanging)
               (peer_id demo_exchanging)]"
      using T [where L = demo_libs and s = demo_exchanging
          and data = "measurements_message [1, 0]"
          and ms = "[1, 0]" and sifted = "[1, 0]" and alice_sifted = "[0, 1]"
          and bob_sifted = "[1, 0]" and corrected_alice = "[]" and corrected_bob = "[]"
          and k = "[]" and q = demo_responder and sample_indices = "[]"
          and sample_bits = "[]" and errors = 0] h hi
      by blast
    then show ?thesis by (simp add: q1 f restart_session_fields)
  qed
  have t2: "handle_qkd_measurements demo_libs demo_exchanging (measurements_message [0, 1])
       = verify_key_consistency demo_libs
           (demo_exchanging\<lparr>qber := 0, shared_key := Some (replicate 32 0)\<rparr>)"
    using T [where L = demo_libs and s = demo_exchanging and data = "measurements_message [0, 1]"
        and ms = "[0, 1]" and sifted = "[0, 1]" and alice_sifted = "[0, 1]"
        and bob_sifted = "[0, 1]" and corrected_alice = "[0, 1]" and corrected_bob = "[0, 1]"
        and k = "replicate 32 0" and q = demo_responder and sample_indices = "[]"
        and sample_bits = "[]" and errors = 0]
      f(1) m s2 q2 demo_error_correction g by simp
  have t3: "receive_qber_sample demo_libs demo_responder [0, 1, 2] [0, 0, 1]
       = (demo_responder\<lparr>qkd_state := QKD_SESSION_TERMINATED\<rparr>,
          Inr (Some (Qkd_abort ''s3'' (1 / 3))))"
    using T [where L = demo_libs and s = demo_exchanging and data = "measurements_message []"
        and ms = "[1]" and sifted = "[]" and alice_sifted = "[]"
        and bob_sifted = "[]" and corrected_alice = "[]" and corrected_bob = "[]"
        and k = "[]" and q = demo_responder and sample_indices = "[0, 1, 2]"
        and sample_bits = "[0, 0, 1]" and errors = 1]
      c1 r by simp
  have t4: "receive_qber_sample demo_libs demo_responder [0, 1, 2] [1, 0, 1]
       = qkd_error_correction demo_libs
           (demo_responder\<lparr>final_key := Some (remove_sampled [1, 0, 1] [0, 1, 2]),
              final_is_sifted := False, qkd_state := ERROR_CORRECTION\<rparr>)"
    using T [where L = demo_libs and s = demo_exchanging and data = "measurements_message []"
        and ms = "[1]" and sifted = "[]" and alice_sifted = "[]"
        and bob_sifted = "[]" and corrected_alice = "[]" and corrected_bob = "[]"
        and k = "[]" and q = demo_responder and sample_indices = "[0, 1, 2]"
        and sample_bits = "[1, 0, 1]" and errors = 0]
      c2 r by simp
  show ?thesis
    using f(1) s1 q1 q2 t1 t2 t3 t4 c1 c2 by blast
qed

theorem qkd_session_aborts_on_high_error_rate:
  "qkd_state demo_responder = QBER_CHECK
   \<and> receive_qber_sample demo_libs demo_responder [0, 1, 2] [0, 0, 1]
       = (demo_responder\<lparr>qkd_state := QKD_SESSION_TERMINATED\<rparr>,
          Inr (Some (Qkd_abort ''s3'' (1 / 3))))
   \<and> (11 :: real) / 100 < 1 / 3"
  by (simp add: receive_qber_sample_def demo_responder_def new_qkd_session_def
      py_getitem_def py_index_def)

end
